theory Spec2Isabelle
  imports Main
begin

section \<open>The HTTP client of azure/http/httpclient.py\<close>

text \<open>
  The module dispatches one request over a platform connection object and turns the
  answer into a response value or an \<open>HTTPError\<close>. The connection object, the response
  object it hands back, \<open>base64.encodestring\<close> and the user agent constant live outside
  the module; they are gathered in a \<open>platform\<close> record that every operation takes as a
  parameter. Every call made on the connection or on its response is appended to
  a trace, and the platform decides, from the trace so far and the call, whether the call
  raises.
\<close>

subsection \<open>Python values\<close>

type_synonym bytes = string

text \<open>
  Strings are byte strings. Truth value of an optional string: \<open>None\<close> and the empty
  string are false.
\<close>

definition truthy :: "string option \<Rightarrow> bool" where
  "truthy v = (case v of None \<Rightarrow> False | Some s \<Rightarrow> s \<noteq> [])"

definition isupper :: "char \<Rightarrow> bool" where
  "isupper c = (65 \<le> (of_char c :: nat) \<and> (of_char c :: nat) \<le> 90)"

definition lower_char :: "char \<Rightarrow> char" where
  "lower_char c =
     (if isupper c then ''abcdefghijklmnopqrstuvwxyz'' ! ((of_char c :: nat) - 65) else c)"

text \<open>\<open>str.lower()\<close> on a byte string: the letters A to Z are mapped to a to z.\<close>

definition lower :: "string \<Rightarrow> string" where
  "lower s = map lower_char s"

definition startswith :: "string \<Rightarrow> string \<Rightarrow> bool" where
  "startswith s p = (take (length p) s = p)"

fun str_nat :: "nat \<Rightarrow> string" where
  "str_nat n =
     (if n < 10 then [''0123456789'' ! n]
      else str_nat (n div 10) @ [''0123456789'' ! (n mod 10)])"

declare str_nat.simps [simp del]

definition str_int :: "int \<Rightarrow> string" where
  "str_int i = (if i < 0 then ''-'' @ str_nat (nat (- i)) else str_nat (nat i))"

text \<open>What \<open>"{0}"\<close> prints for an attribute that holds a string or \<open>None\<close>, an integer or \<open>None\<close>.\<close>

definition format_str :: "string option \<Rightarrow> string" where
  "format_str v = (case v of None \<Rightarrow> ''None'' | Some s \<Rightarrow> s)"

definition format_int :: "int option \<Rightarrow> string" where
  "format_int v = (case v of None \<Rightarrow> ''None'' | Some i \<Rightarrow> str_int i)"

subsection \<open>Data model\<close>

type_synonym addr = nat
type_synonym header = "string \<times> string"

datatype conn_kind = HTTPConnection | HTTPSConnection | WinHTTPConnection

text \<open>
  A line of the connection's buffer: a native string, as httplib keeps on Python 2, or
  a bytes object, as http.client keeps on Python 3.
\<close>

datatype line = Str string | Bytes string

text \<open>
  The attributes of a connection object that the module sets or reads: the constructor
  arguments, the tunnel attributes stored by \<open>set_tunnel\<close>, and the buffer of header
  section lines that \<open>send_request_headers\<close> reaches into.
\<close>

record connection =
  kind :: conn_kind
  conn_host :: string
  conn_port :: "int option"
  conn_cert_file :: "string option"
  conn_protocol :: "string option"
  tunnel_host :: "string option"
  tunnel_port :: "int option"
  tunnel_headers :: "header list option"
  buffer :: "line list"

datatype call =
    NewConnection conn_kind string "int option"
  | SetTunnel string int "header list option"
  | PutRequest string string
  | SetProxyCredentials "string option" "string option"
  | PutHeader string string
  | EndHeaders "line list"
  | Send "bytes option"
  | GetResponse
  | Read "int option"
  | Close

text \<open>
  The response object returned by \<open>getresponse\<close>: its attributes, the list that
  \<open>getheaders\<close> returns, and what \<open>read()\<close> and \<open>read(n)\<close> return.
\<close>

record raw_response =
  resp_status :: int
  resp_reason :: string
  resp_getheaders :: "header list"
  resp_length :: "int option"
  resp_read :: "int option \<Rightarrow> bytes"

record platform =
  sys_platform :: string
  user_agent :: string
  encodestring :: "string \<Rightarrow> string"
  putrequest_lines :: "connection \<Rightarrow> string \<Rightarrow> string \<Rightarrow> line list"
  header_line :: "string \<Rightarrow> string \<Rightarrow> line"
  raises :: "call list \<Rightarrow> call \<Rightarrow> string option"
  response :: raw_response

record request =
  req_method :: string
  path :: string
  protocol_override :: "string option"
  host :: string
  headers :: "(string \<times> string option) list"
  body :: "bytes option"

record client =
  service_instance :: nat
  status :: "int option"
  respheader :: "addr option"
  message :: "string option"
  cert_file :: "string option"
  account_name :: "string option"
  account_key :: "string option"
  service_namespace :: "string option"
  issuer :: "string option"
  protocol :: string
  proxy_host :: "string option"
  proxy_port :: "int option"
  proxy_user :: "string option"
  proxy_password :: "string option"
  use_httplib :: bool

text \<open>
  Modelled from the spec: \<open>azure.http.HTTPResponse\<close> and \<open>azure.http.HTTPError\<close> are not
  in the source file; the spec gives both the four fields status code, reason phrase,
  headers and body. The headers field holds a reference to a list object.
\<close>

record http_response =
  hr_status :: int
  hr_message :: string
  hr_headers :: addr
  hr_body :: "bytes option"

datatype exn =
    HTTPError int string addr "bytes option"
  | TypeError
  | Propagated string

text \<open>
  The state of one dispatch: the client object, the store of header list objects (the
  list returned by \<open>getheaders\<close> is shared between the client, the response value
  and the error), and the trace of calls.
\<close>

record state =
  self :: client
  heap :: "addr \<Rightarrow> header list option"
  next_addr :: addr
  trace :: "call list"

definition HTTP_PORT :: int where
  "HTTP_PORT = 80"

definition HTTPS_PORT :: int where
  "HTTPS_PORT = 443"

subsection \<open>Calls on the platform objects\<close>

definition invoke :: "platform \<Rightarrow> call \<Rightarrow> state \<Rightarrow> (exn + unit) \<times> state" where
  "invoke pf c s =
     (case raises pf (trace s) c of
        Some e \<Rightarrow> (Inl (Propagated e), s\<lparr>trace := trace s @ [c]\<rparr>)
      | None \<Rightarrow> (Inr (), s\<lparr>trace := trace s @ [c]\<rparr>))"

text \<open>Sequencing: an exception of the first part skips the second.\<close>

definition seq ::
  "(state \<Rightarrow> (exn + 'a) \<times> state) \<Rightarrow> ('a \<Rightarrow> state \<Rightarrow> (exn + 'b) \<times> state) \<Rightarrow>
   state \<Rightarrow> (exn + 'b) \<times> state" where
  "seq f g s = (case f s of (Inl e, s') \<Rightarrow> (Inl e, s') | (Inr a, s') \<Rightarrow> g a s')"

text \<open>\<open>int(port)\<close> for a port that is an integer or \<open>None\<close>: \<open>int(None)\<close> raises.\<close>

definition int_of :: "int option \<Rightarrow> exn + int" where
  "int_of v = (case v of None \<Rightarrow> Inl TypeError | Some i \<Rightarrow> Inr i)"

text \<open>
  The methods of the connection object. Each one is a call that the platform may make
  raise. \<open>set_tunnel\<close> stores its arguments in the tunnel attributes, which
  \<open>send_request_headers\<close> reads back; \<open>putrequest\<close> buffers the lines the platform
  gives for it, \<open>putheader\<close> buffers the line the platform makes of the name and the
  value, and \<open>endheaders\<close> hands over the buffered header section, which the trace
  records.
\<close>

definition set_tunnel ::
  "platform \<Rightarrow> connection \<Rightarrow> string \<Rightarrow> int \<Rightarrow> header list option \<Rightarrow> state \<Rightarrow>
   (exn + connection) \<times> state" where
  "set_tunnel pf c h p hdrs =
     seq (invoke pf (SetTunnel h p hdrs))
       (\<lambda>_ s. (Inr (c\<lparr>tunnel_host := Some h, tunnel_port := Some p, tunnel_headers := hdrs\<rparr>), s))"

definition putrequest ::
  "platform \<Rightarrow> connection \<Rightarrow> string \<Rightarrow> string \<Rightarrow> state \<Rightarrow> (exn + connection) \<times> state" where
  "putrequest pf c m p =
     seq (invoke pf (PutRequest m p))
       (\<lambda>_ s. (Inr (c\<lparr>buffer := buffer c @ putrequest_lines pf c m p\<rparr>), s))"

definition putheader ::
  "platform \<Rightarrow> connection \<Rightarrow> string \<Rightarrow> string \<Rightarrow> state \<Rightarrow> (exn + connection) \<times> state" where
  "putheader pf c name v =
     seq (invoke pf (PutHeader name v))
       (\<lambda>_ s. (Inr (c\<lparr>buffer := buffer c @ [header_line pf name v]\<rparr>), s))"

definition endheaders :: "platform \<Rightarrow> connection \<Rightarrow> state \<Rightarrow> (exn + unit) \<times> state" where
  "endheaders pf c = invoke pf (EndHeaders (buffer c))"

definition new_connection ::
  "conn_kind \<Rightarrow> string \<Rightarrow> int option \<Rightarrow> string option \<Rightarrow> string option \<Rightarrow> state \<Rightarrow>
   (exn + connection) \<times> state" where
  "new_connection k h p cert proto s =
     (Inr \<lparr>kind = k, conn_host = h, conn_port = p, conn_cert_file = cert, conn_protocol = proto,
           tunnel_host = None, tunnel_port = None, tunnel_headers = None, buffer = []\<rparr>,
      s\<lparr>trace := trace s @ [NewConnection k h p]\<rparr>)"

definition read :: "platform \<Rightarrow> int option \<Rightarrow> state \<Rightarrow> (exn + bytes) \<times> state" where
  "read pf n = seq (invoke pf (Read n)) (\<lambda>_ s. (Inr (resp_read (response pf) n), s))"

subsection \<open>The client\<close>

definition init_client ::
  "platform \<Rightarrow> nat \<Rightarrow> string option \<Rightarrow> string option \<Rightarrow> string option \<Rightarrow> string option \<Rightarrow>
   string option \<Rightarrow> string \<Rightarrow> client" where
  "init_client pf si cert name key ns iss proto =
     \<lparr>service_instance = si, status = None, respheader = None, message = None,
      cert_file = cert, account_name = name, account_key = key, service_namespace = ns,
      issuer = iss, protocol = proto, proxy_host = None, proxy_port = None,
      proxy_user = None, proxy_password = None,
      use_httplib = (\<not> startswith (lower (sys_platform pf)) ''win'')\<rparr>"

definition set_proxy ::
  "string option \<Rightarrow> int option \<Rightarrow> string option \<Rightarrow> string option \<Rightarrow> client \<Rightarrow> client" where
  "set_proxy h p user password c =
     c\<lparr>proxy_host := h, proxy_port := p, proxy_user := user, proxy_password := password\<rparr>"

text \<open>The headers argument of \<open>set_tunnel\<close>: set only when user and password are both true.\<close>

definition tunnel_auth_headers :: "platform \<Rightarrow> client \<Rightarrow> header list option" where
  "tunnel_auth_headers pf c =
     (if truthy (proxy_user c) \<and> truthy (proxy_password c)
      then Some [(''Proxy-Authorization'',
                  ''Basic '' @ encodestring pf
                     (format_str (proxy_user c) @ '':'' @ format_str (proxy_password c)))]
      else None)"

text \<open>The block under \<open>if self.proxy_host:\<close> at the end of \<open>get_connection\<close>.\<close>

definition open_tunnel ::
  "platform \<Rightarrow> connection \<Rightarrow> string \<Rightarrow> int option \<Rightarrow> state \<Rightarrow> (exn + connection) \<times> state" where
  "open_tunnel pf c ph pp s =
     (let hdrs = tunnel_auth_headers pf (self s)
      in case int_of pp of
           Inl e \<Rightarrow> (Inl e, s)
         | Inr p \<Rightarrow> set_tunnel pf c ph p hdrs s)"

text \<open>The value of an optional string when it is true, \<open>None\<close> otherwise.\<close>

definition if_true :: "string option \<Rightarrow> string option" where
  "if_true v = (if truthy v then v else None)"

definition effective_protocol :: "client \<Rightarrow> request \<Rightarrow> string" where
  "effective_protocol c r =
     (case if_true (protocol_override r) of
        Some p \<Rightarrow> p
      | None \<Rightarrow> protocol c)"

definition get_connection :: "platform \<Rightarrow> request \<Rightarrow> state \<Rightarrow> (exn + connection) \<times> state" where
  "get_connection pf r s =
     (let proto = effective_protocol (self s) r;
          target_host = host r;
          target_port = (if proto = ''http'' then HTTP_PORT else HTTPS_PORT)
      in if \<not> use_httplib (self s) then
           seq (new_connection WinHTTPConnection target_host None (cert_file (self s)) (Some proto))
             (\<lambda>c. case if_true (proxy_host (self s)) of
                     None \<Rightarrow> (\<lambda>s'. (Inr c, s'))
                   | Some ph \<Rightarrow> open_tunnel pf c ph (proxy_port (self s))) s
         else
           (case if_true (proxy_host (self s)) of
              Some ph \<Rightarrow>
                (case int_of (proxy_port (self s)) of
                   Inl e \<Rightarrow> (Inl e, s)
                 | Inr port \<Rightarrow>
                     seq (if proto = ''http''
                          then new_connection HTTPConnection ph (Some port) None None
                          else new_connection HTTPSConnection ph (Some port) (cert_file (self s)) None)
                       (\<lambda>c. open_tunnel pf c target_host (Some target_port)) s)
            | None \<Rightarrow>
                (if proto = ''http''
                 then new_connection HTTPConnection target_host (Some target_port) None None s
                 else new_connection HTTPSConnection target_host (Some target_port)
                        (cert_file (self s)) None s)))"

text \<open>
  \<open>i.startswith("Host: ")\<close>, whose argument is a native string: on a bytes line it
  raises \<open>TypeError\<close>.
\<close>

definition line_startswith :: "line \<Rightarrow> string \<Rightarrow> exn + bool" where
  "line_startswith l p =
     (case l of Str s \<Rightarrow> Inr (startswith s p) | Bytes b \<Rightarrow> Inl TypeError)"

text \<open>
  The loop over \<open>connection._buffer\<close> that removes from the list it iterates on: the
  iterator is an index into the list, and \<open>remove\<close> deletes the first equal element.
  An exception of \<open>startswith\<close> ends the loop.
\<close>

function remove_host_lines :: "nat \<Rightarrow> line list \<Rightarrow> exn + line list" where
  "remove_host_lines i buf =
     (if i < length buf then
        (case line_startswith (buf ! i) ''Host: '' of
           Inl e \<Rightarrow> Inl e
         | Inr b \<Rightarrow>
             if b then remove_host_lines (Suc i) (remove1 (buf ! i) buf)
             else remove_host_lines (Suc i) buf)
      else Inr buf)"
  by pat_completeness auto
termination
  by (relation "measure (\<lambda>(i, buf). length buf - i)") (auto simp: length_remove1)

declare remove_host_lines.simps [simp del]

fun put_headers ::
  "platform \<Rightarrow> connection \<Rightarrow> (string \<times> string option) list \<Rightarrow> state \<Rightarrow>
   (exn + connection) \<times> state" where
  "put_headers pf c [] s = (Inr c, s)"
| "put_headers pf c ((name, v) # rest) s =
     (case v of
        None \<Rightarrow> put_headers pf c rest s
      | Some x \<Rightarrow>
          if x \<noteq> [] then
            (case putheader pf c name x s of
               (Inl e, s') \<Rightarrow> (Inl e, s')
             | (Inr c', s') \<Rightarrow> put_headers pf c' rest s')
          else put_headers pf c rest s)"

definition send_request_headers ::
  "platform \<Rightarrow> connection \<Rightarrow> (string \<times> string option) list \<Rightarrow> state \<Rightarrow>
   (exn + connection) \<times> state" where
  "send_request_headers pf c request_headers s =
     seq (if use_httplib (self s) \<and> truthy (proxy_host (self s))
          then seq (\<lambda>s'. (remove_host_lines 0 (buffer c), s'))
                 (\<lambda>ls. putheader pf (c\<lparr>buffer := ls\<rparr>) ''Host''
                         (format_str (tunnel_host c) @ '':'' @ format_int (tunnel_port c)))
          else (\<lambda>s'. (Inr c, s')))
       (\<lambda>c1. seq (put_headers pf c1 request_headers)
          (\<lambda>c2. seq (putheader pf c2 ''User-Agent'' (user_agent pf))
             (\<lambda>c3. seq (endheaders pf c3) (\<lambda>_ s'. (Inr c3, s'))))) s"

definition send_request_body ::
  "platform \<Rightarrow> connection \<Rightarrow> bytes option \<Rightarrow> state \<Rightarrow> (exn + unit) \<times> state" where
  "send_request_body pf c request_body s =
     (if truthy request_body then invoke pf (Send request_body) s
      else if kind c \<noteq> HTTPSConnection \<and> kind c \<noteq> HTTPConnection
      then invoke pf (Send None) s
      else (Inr (), s))"

text \<open>
  The loop \<open>for i, value in enumerate(headers): headers[i] = ...\<close>, which overwrites
  the elements of the list it enumerates.
\<close>

function lowercase_names :: "nat \<Rightarrow> header list \<Rightarrow> header list" where
  "lowercase_names i hs =
     (if i < length hs
      then lowercase_names (Suc i) (hs[i := (lower (fst (hs ! i)), snd (hs ! i))])
      else hs)"
  by pat_completeness auto
termination
  by (relation "measure (\<lambda>(i, hs). length hs - i)") auto

declare lowercase_names.simps [simp del]

text \<open>The statements of \<open>perform_request\<close> from \<open>getresponse\<close> to the end of the try block.\<close>

definition read_response :: "platform \<Rightarrow> state \<Rightarrow> (exn + http_response) \<times> state" where
  "read_response pf =
     seq (invoke pf GetResponse)
       (\<lambda>_ s.
          (let resp = response pf;
               a = next_addr s;
               s1 = s\<lparr>self := (self s)\<lparr>status := Some (resp_status resp),
                                         message := Some (resp_reason resp),
                                         respheader := Some a\<rparr>,
                      heap := (heap s)(a \<mapsto> resp_getheaders resp),
                      next_addr := Suc a\<rparr>;
               s2 = s1\<lparr>heap := (heap s1)(a \<mapsto> lowercase_names 0 (resp_getheaders resp))\<rparr>
           in seq (case resp_length resp of
                     None \<Rightarrow> seq (read pf None) (\<lambda>b s'. (Inr (Some b), s'))
                   | Some n \<Rightarrow>
                       if n > 0 then seq (read pf (Some n)) (\<lambda>b s'. (Inr (Some b), s'))
                       else (\<lambda>s'. (Inr None, s')))
                (\<lambda>respbody s'.
                   (let resp_value = \<lparr>hr_status = resp_status resp, hr_message = resp_reason resp,
                                      hr_headers = a, hr_body = respbody\<rparr>
                    in if resp_status resp \<ge> 300
                       then (Inl (HTTPError (resp_status resp) (resp_reason resp) a respbody), s')
                       else (Inr resp_value, s'))) s2))"

definition try_body :: "platform \<Rightarrow> connection \<Rightarrow> request \<Rightarrow> state \<Rightarrow> (exn + http_response) \<times> state" where
  "try_body pf c r s =
     seq (putrequest pf c (req_method r) (path r))
       (\<lambda>c1. seq (if \<not> use_httplib (self s) \<and> truthy (proxy_host (self s)) \<and> truthy (proxy_user (self s))
                  then invoke pf (SetProxyCredentials (proxy_user (self s)) (proxy_password (self s)))
                  else (\<lambda>s'. (Inr (), s')))
          (\<lambda>_. seq (send_request_headers pf c1 (headers r))
             (\<lambda>c2. seq (send_request_body pf c2 (body r))
                (\<lambda>_. read_response pf)))) s"

text \<open>
  \<open>try: ... finally: connection.close()\<close>: close is called after the body, whatever the
  body did; an exception of close replaces the outcome of the body.
\<close>

definition finally_close ::
  "platform \<Rightarrow> (exn + http_response) \<times> state \<Rightarrow> (exn + http_response) \<times> state" where
  "finally_close pf out =
     (case invoke pf Close (snd out) of
        (Inl e, s') \<Rightarrow> (Inl e, s')
      | (Inr _, s') \<Rightarrow> (fst out, s'))"

definition perform_request :: "platform \<Rightarrow> request \<Rightarrow> state \<Rightarrow> (exn + http_response) \<times> state" where
  "perform_request pf r s =
     (case get_connection pf r s of
        (Inl e, s') \<Rightarrow> (Inl e, s')
      | (Inr c, s') \<Rightarrow> finally_close pf (try_body pf c r s'))"

subsection \<open>Vocabulary of the properties\<close>

text \<open>A platform on which no call raises.\<close>

definition never_raises :: "platform \<Rightarrow> bool" where
  "never_raises pf = (\<forall>h c. raises pf h c = None)"

text \<open>The request headers that \<open>send_request_headers\<close> passes on: those with a true value.\<close>

fun sent_headers :: "(string \<times> string option) list \<Rightarrow> header list" where
  "sent_headers [] = []"
| "sent_headers ((name, v) # rest) =
     (case v of
        None \<Rightarrow> sent_headers rest
      | Some x \<Rightarrow> if x \<noteq> [] then (name, x) # sent_headers rest else sent_headers rest)"

fun is_read :: "call \<Rightarrow> bool" where
  "is_read (Read n) = True"
| "is_read _ = False"

fun is_send :: "call \<Rightarrow> bool" where
  "is_send (Send b) = True"
| "is_send _ = False"

text \<open>
  The calls made before the response is fetched are neither a read nor the close, and
  the steps that make them change nothing of the state but the trace.
\<close>

definition quiet :: "call \<Rightarrow> bool" where
  "quiet c = (c \<noteq> Close \<and> \<not> is_read c)"

definition extends :: "state \<Rightarrow> state \<Rightarrow> bool" where
  "extends s s' = (\<exists>ext. s' = s\<lparr>trace := trace s @ ext\<rparr> \<and> list_all quiet ext)"

fun is_http_error :: "exn \<Rightarrow> bool" where
  "is_http_error (HTTPError st msg a b) = True"
| "is_http_error _ = False"

definition lowercase_name :: "string \<Rightarrow> bool" where
  "lowercase_name s = list_all (\<lambda>c. \<not> isupper c) s"

text \<open>The calls made by one dispatch: what it appended to the trace.\<close>

definition new_calls :: "state \<Rightarrow> state \<Rightarrow> call list" where
  "new_calls s s' = drop (length (trace s)) (trace s')"

text \<open>A step that only makes quiet calls and never raises an HTTPError.\<close>

definition benign :: "(state \<Rightarrow> (exn + 'a) \<times> state) \<Rightarrow> bool" where
  "benign f = (\<forall>s res s'. f s = (res, s') \<longrightarrow>
      extends s s' \<and> (\<forall>e. res = Inl e \<longrightarrow> \<not> is_http_error e))"

text \<open>The body that the length policy of \<open>perform_request\<close> yields, and the reads it makes.\<close>

definition body_read :: "raw_response \<Rightarrow> bytes option" where
  "body_read resp =
     (case resp_length resp of
        None \<Rightarrow> Some (resp_read resp None)
      | Some n \<Rightarrow> if n > 0 then Some (resp_read resp (Some n)) else None)"

definition read_calls :: "raw_response \<Rightarrow> call list" where
  "read_calls resp =
     (case resp_length resp of
        None \<Rightarrow> [Read None]
      | Some n \<Rightarrow> if n > 0 then [Read (Some n)] else [])"

definition after_response :: "platform \<Rightarrow> state \<Rightarrow> state" where
  "after_response pf s =
     s\<lparr>self := (self s)\<lparr>status := Some (resp_status (response pf)),
                         message := Some (resp_reason (response pf)),
                         respheader := Some (next_addr s)\<rparr>,
       heap := (heap s)(next_addr s \<mapsto>
                 map (\<lambda>h. (lower (fst h), snd h)) (resp_getheaders (response pf))),
       next_addr := Suc (next_addr s),
       trace := trace s @ GetResponse # read_calls (response pf)\<rparr>"

text \<open>Lines that are native strings, and among them the Host lines.\<close>

definition native :: "line \<Rightarrow> bool" where
  "native l = (case l of Str s \<Rightarrow> True | Bytes b \<Rightarrow> False)"

definition is_host_line :: "line \<Rightarrow> bool" where
  "is_host_line l = (case l of Str s \<Rightarrow> startswith s ''Host: '' | Bytes b \<Rightarrow> False)"

text \<open>
  What \<open>send_request_headers\<close> keeps of the buffered lines: the result of the removal
  loop when it tunnels on the standard path, which may be an exception, and all the
  lines otherwise.
\<close>

definition kept_lines :: "client \<Rightarrow> line list \<Rightarrow> exn + line list" where
  "kept_lines cl buf =
     (if use_httplib cl \<and> truthy (proxy_host cl) then remove_host_lines 0 buf else Inr buf)"

text \<open>
  The header section handed to \<open>endheaders\<close> and the calls made from \<open>putrequest\<close> up to
  the body, on a platform that never raises, given the lines kept of the buffer.
\<close>

definition header_section ::
  "platform \<Rightarrow> connection \<Rightarrow> request \<Rightarrow> client \<Rightarrow> line list \<Rightarrow> line list" where
  "header_section pf c r cl ls =
     ls @
     (if use_httplib cl \<and> truthy (proxy_host cl)
      then [header_line pf ''Host''
              (format_str (tunnel_host c) @ '':'' @ format_int (tunnel_port c))]
      else []) @
     map (\<lambda>h. header_line pf (fst h) (snd h)) (sent_headers (headers r)) @
     [header_line pf ''User-Agent'' (user_agent pf)]"

definition credential_calls :: "client \<Rightarrow> call list" where
  "credential_calls cl =
     (if \<not> use_httplib cl \<and> truthy (proxy_host cl) \<and> truthy (proxy_user cl)
      then [SetProxyCredentials (proxy_user cl) (proxy_password cl)] else [])"

definition request_calls ::
  "platform \<Rightarrow> connection \<Rightarrow> request \<Rightarrow> client \<Rightarrow> line list \<Rightarrow> call list" where
  "request_calls pf c r cl ls =
     [PutRequest (req_method r) (path r)] @
     credential_calls cl @
     (if use_httplib cl \<and> truthy (proxy_host cl)
      then [PutHeader ''Host'' (format_str (tunnel_host c) @ '':'' @ format_int (tunnel_port c))]
      else []) @
     map (\<lambda>h. PutHeader (fst h) (snd h)) (sent_headers (headers r)) @
     [PutHeader ''User-Agent'' (user_agent pf), EndHeaders (header_section pf c r cl ls)] @
     (if truthy (body r) then [Send (body r)]
      else if kind c = WinHTTPConnection then [Send None] else [])"

text \<open>The calls \<open>get_connection\<close> makes for the connection it returns.\<close>

definition connection_calls :: "connection \<Rightarrow> call list" where
  "connection_calls c =
     NewConnection (kind c) (conn_host c) (conn_port c) #
     (case (tunnel_host c, tunnel_port c) of
        (Some h, Some p) \<Rightarrow> [SetTunnel h p (tunnel_headers c)]
      | _ \<Rightarrow> [])"

text \<open>The outcome of the try block once the response has been read.\<close>

definition outcome :: "raw_response \<Rightarrow> addr \<Rightarrow> exn + http_response" where
  "outcome resp a =
     (if resp_status resp \<ge> 300
      then Inl (HTTPError (resp_status resp) (resp_reason resp) a (body_read resp))
      else Inr \<lparr>hr_status = resp_status resp, hr_message = resp_reason resp,
                hr_headers = a, hr_body = body_read resp\<rparr>)"


subsection \<open>Example inputs\<close>

text \<open>
  A base64 encoder in the manner of \<open>base64.encodestring\<close>: lines of at most 57 input
  bytes, each followed by a newline.
\<close>

definition b64_alphabet :: string where
  "b64_alphabet = ''ABCDEFGHIJKLMNOPQRSTUVWXYZabcdefghijklmnopqrstuvwxyz0123456789+/''"

fun b64_groups :: "nat list \<Rightarrow> string" where
  "b64_groups (a # b # c # rest) =
     [b64_alphabet ! (a div 4), b64_alphabet ! ((a mod 4) * 16 + b div 16),
      b64_alphabet ! ((b mod 16) * 4 + c div 64), b64_alphabet ! (c mod 64)] @ b64_groups rest"
| "b64_groups [a, b] =
     [b64_alphabet ! (a div 4), b64_alphabet ! ((a mod 4) * 16 + b div 16),
      b64_alphabet ! ((b mod 16) * 4), CHR ''='']"
| "b64_groups [a] =
     [b64_alphabet ! (a div 4), b64_alphabet ! ((a mod 4) * 16), CHR ''='', CHR ''='']"
| "b64_groups [] = []"

fun b64_lines :: "nat list \<Rightarrow> string" where
  "b64_lines bs =
     (if bs = [] then []
      else b64_groups (take 57 bs) @ [CHR 0x0A] @ b64_lines (drop 57 bs))"

declare b64_lines.simps [simp del]

definition b64_encodestring :: "string \<Rightarrow> string" where
  "b64_encodestring s = b64_lines (map of_char s)"

text \<open>
  A platform on which no call raises, in the manner of httplib on Python 2: the buffer
  of a standard connection holds native strings, \<open>putrequest\<close> buffers the request
  line, a Host line naming the host the connection was opened to, and an
  Accept-Encoding line.
\<close>

definition quiet_platform :: "raw_response \<Rightarrow> platform" where
  "quiet_platform resp =
     \<lparr>sys_platform = ''linux2'', user_agent = ''pyazure'',
      encodestring = b64_encodestring,
      putrequest_lines =
        (\<lambda>c m p. if kind c = WinHTTPConnection then []
                 else [Str (m @ '' '' @ p @ '' HTTP/1.1''), Str (''Host: '' @ conn_host c),
                       Str ''Accept-Encoding: identity'']),
      header_line = (\<lambda>name v. Str (name @ '': '' @ v)),
      raises = (\<lambda>h c. None),
      response = resp\<rparr>"

text \<open>The same platform in the manner of http.client on Python 3: the buffer holds bytes.\<close>

definition python3_platform :: "raw_response \<Rightarrow> platform" where
  "python3_platform resp =
     (quiet_platform resp)
       \<lparr>putrequest_lines :=
          (\<lambda>c m p. if kind c = WinHTTPConnection then []
                   else [Bytes (m @ '' '' @ p @ '' HTTP/1.1''), Bytes (''Host: '' @ conn_host c),
                         Bytes ''Accept-Encoding: identity'']),
        header_line := (\<lambda>name v. Bytes (name @ '': '' @ v))\<rparr>"

text \<open>A platform on which \<open>getresponse\<close> raises.\<close>

definition failing_platform :: "raw_response \<Rightarrow> platform" where
  "failing_platform resp =
     (quiet_platform resp)\<lparr>raises := (\<lambda>h c. if c = GetResponse then Some ''timed out'' else None)\<rparr>"

text \<open>A response whose \<open>read()\<close> yields the content and \<open>read(n)\<close> its first \<open>n\<close> bytes.\<close>

definition content_reader :: "bytes \<Rightarrow> int option \<Rightarrow> bytes" where
  "content_reader content n = (case n of None \<Rightarrow> content | Some k \<Rightarrow> take (nat k) content)"

definition server_200 :: raw_response where
  "server_200 =
     \<lparr>resp_status = 200, resp_reason = ''OK'',
      resp_getheaders = [(''Content-Length'', ''13'')],
      resp_length = Some 13, resp_read = content_reader ''hello world!!''\<rparr>"

definition server_204 :: raw_response where
  "server_204 =
     \<lparr>resp_status = 204, resp_reason = ''No Content'',
      resp_getheaders = [(''Content-Length'', ''0'')],
      resp_length = Some 0, resp_read = content_reader []\<rparr>"

definition server_404 :: raw_response where
  "server_404 =
     \<lparr>resp_status = 404, resp_reason = ''Not Found'',
      resp_getheaders = [(''Content-Type'', ''text/plain'')],
      resp_length = Some 9, resp_read = content_reader ''not found''\<rparr>"

definition posix_client :: client where
  "posix_client =
     \<lparr>service_instance = 0, status = None, respheader = None, message = None,
      cert_file = None, account_name = Some ''account'', account_key = Some ''key'',
      service_namespace = None, issuer = None, protocol = ''https'',
      proxy_host = None, proxy_port = None, proxy_user = None, proxy_password = None,
      use_httplib = True\<rparr>"

definition windows_client :: client where
  "windows_client = posix_client\<lparr>use_httplib := False\<rparr>"

definition blob_request :: request where
  "blob_request =
     \<lparr>req_method = ''GET'', path = ''/blob'', protocol_override = None,
      host = ''example.blob.core.windows.net'',
      headers = [(''x-ms-version'', Some ''2021-08-06'')], body = None\<rparr>"

definition initial_state :: "client \<Rightarrow> state" where
  "initial_state c = \<lparr>self = c, heap = (\<lambda>a. None), next_addr = 0, trace = []\<rparr>"

text \<open>The connections that \<open>get_connection\<close> builds for these inputs.\<close>

definition direct_connection :: connection where
  "direct_connection =
     \<lparr>kind = HTTPSConnection, conn_host = ''example.blob.core.windows.net'',
      conn_port = Some 443, conn_cert_file = None, conn_protocol = None,
      tunnel_host = None, tunnel_port = None, tunnel_headers = None, buffer = []\<rparr>"

definition tunnelled_connection :: connection where
  "tunnelled_connection =
     \<lparr>kind = HTTPSConnection, conn_host = ''proxy.local'',
      conn_port = Some 8080, conn_cert_file = None, conn_protocol = None,
      tunnel_host = Some ''example.blob.core.windows.net'', tunnel_port = Some 443,
      tunnel_headers = None, buffer = []\<rparr>"

definition windows_connection :: connection where
  "windows_connection =
     \<lparr>kind = WinHTTPConnection, conn_host = ''example.blob.core.windows.net'',
      conn_port = None, conn_cert_file = None, conn_protocol = Some ''https'',
      tunnel_host = Some ''proxy.local'', tunnel_port = Some 8080,
      tunnel_headers = None, buffer = []\<rparr>"

section \<open>Properties\<close>

subsection \<open>Strings and lists\<close>

lemma lower_letter: "k < 26 \<Longrightarrow> \<not> isupper (''abcdefghijklmnopqrstuvwxyz'' ! k)"
proof -
  assume k: "k < 26"
  have "\<forall>c\<in>set ''abcdefghijklmnopqrstuvwxyz''. \<not> isupper c"
    by (simp add: isupper_def)
  moreover have "''abcdefghijklmnopqrstuvwxyz'' ! k \<in> set ''abcdefghijklmnopqrstuvwxyz''"
    using k by (intro nth_mem) simp
  ultimately show ?thesis by blast
qed

lemma lower_char_not_upper: "\<not> isupper (lower_char c)"
proof (cases "isupper c")
  case True
  then have "(of_char c :: nat) - 65 < 26"
    by (auto simp: isupper_def)
  then show ?thesis
    using True by (simp add: lower_char_def lower_letter)
next
  case False
  then show ?thesis by (simp add: lower_char_def)
qed

lemma lower_no_upper: "list_all (\<lambda>c. \<not> isupper c) (lower s)"
  by (simp add: lower_def list_all_iff lower_char_not_upper)

lemma lowercase_names_from:
  "lowercase_names i hs = take i hs @ map (\<lambda>h. (lower (fst h), snd h)) (drop i hs)"
proof (induction i hs rule: lowercase_names.induct)
  case (1 i hs)
  show ?case
  proof (cases "i < length hs")
    case True
    let ?hs' = "hs[i := (lower (fst (hs ! i)), snd (hs ! i))]"
    have "lowercase_names i hs = lowercase_names (Suc i) ?hs'"
      using True by (subst lowercase_names.simps) simp
    also have "\<dots> = take (Suc i) ?hs' @ map (\<lambda>h. (lower (fst h), snd h)) (drop (Suc i) ?hs')"
      using 1 True by simp
    also have "take (Suc i) ?hs' = take i hs @ [(lower (fst (hs ! i)), snd (hs ! i))]"
      using True by (simp add: take_Suc_conv_app_nth)
    also have "drop (Suc i) ?hs' = drop (Suc i) hs"
      by simp
    finally show ?thesis
      using True by (simp add: Cons_nth_drop_Suc [symmetric])
  next
    case False
    then show ?thesis
      by (subst lowercase_names.simps) simp
  qed
qed

lemma lowercase_names_map:
  "lowercase_names 0 hs = map (\<lambda>h. (lower (fst h), snd h)) hs"
  by (simp add: lowercase_names_from)

lemma remove1_nth_first:
  "i < length buf \<Longrightarrow> \<forall>x\<in>set (take i buf). x \<noteq> buf ! i \<Longrightarrow>
   remove1 (buf ! i) buf = take i buf @ drop (Suc i) buf"
proof (induction buf arbitrary: i)
  case Nil
  then show ?case by simp
next
  case (Cons a buf)
  then show ?case by (cases i) auto
qed

lemma line_startswith_native:
  "native l \<Longrightarrow> line_startswith l ''Host: '' = Inr (is_host_line l)"
  by (cases l) (simp_all add: native_def line_startswith_def is_host_line_def)

lemma remove_host_lines_type_error:
  "remove_host_lines i buf = Inl e \<Longrightarrow> e = TypeError"
proof (induction i buf rule: remove_host_lines.induct)
  case (1 i buf)
  show ?case
  proof (cases "i < length buf")
    case False
    then show ?thesis
      using 1(3) by (subst (asm) remove_host_lines.simps) simp
  next
    case True
    show ?thesis
    proof (cases "buf ! i")
      case (Bytes b)
      then show ?thesis
        using 1(3) True
        by (subst (asm) remove_host_lines.simps) (simp add: line_startswith_def)
    next
      case (Str x)
      then have ls: "line_startswith (buf ! i) ''Host: '' = Inr (startswith x ''Host: '')"
        by (simp add: line_startswith_def)
      show ?thesis
      proof (cases "startswith x ''Host: ''")
        case True
        then have "remove_host_lines (Suc i) (remove1 (buf ! i) buf) = Inl e"
          using 1(3) \<open>i < length buf\<close> ls
          by (subst (asm) remove_host_lines.simps) simp
        then show ?thesis
          using 1(1) [OF \<open>i < length buf\<close> ls] True by simp
      next
        case False
        then have "remove_host_lines (Suc i) buf = Inl e"
          using 1(3) \<open>i < length buf\<close> ls
          by (subst (asm) remove_host_lines.simps) simp
        then show ?thesis
          using 1(2) [OF \<open>i < length buf\<close> ls] False by simp
      qed
    qed
  qed
qed

lemma remove_host_lines_bytes_first:
  "remove_host_lines 0 (Bytes b # buf) = Inl TypeError"
  by (subst remove_host_lines.simps) (simp add: line_startswith_def)

lemma remove_host_lines_single:
  "\<forall>x\<in>set buf. native x \<Longrightarrow>
   \<forall>x\<in>set (take i buf). \<not> is_host_line x \<Longrightarrow>
   length (filter is_host_line (drop i buf)) \<le> 1 \<Longrightarrow>
   remove_host_lines i buf = Inr (filter (\<lambda>x. \<not> is_host_line x) buf)"
proof (induction i buf rule: remove_host_lines.induct)
  case (1 i buf)
  show ?case
  proof (cases "i < length buf")
    case False
    then have "\<forall>x\<in>set buf. \<not> is_host_line x"
      using 1(4) by simp
    then have "filter (\<lambda>x. \<not> is_host_line x) buf = buf"
      by (simp add: filter_id_conv)
    then show ?thesis
      using False by (subst remove_host_lines.simps) simp
  next
    case True
    note lt = True
    have nat_i: "native (buf ! i)"
      using 1(3) lt by simp
    have ls: "line_startswith (buf ! i) ''Host: '' = Inr (is_host_line (buf ! i))"
      using nat_i by (rule line_startswith_native)
    have split: "buf = take i buf @ buf ! i # drop (Suc i) buf"
      using lt by (simp add: id_take_nth_drop [symmetric])
    have dr: "drop i buf = buf ! i # drop (Suc i) buf"
      using lt by (simp add: Cons_nth_drop_Suc)
    show ?thesis
    proof (cases "is_host_line (buf ! i)")
      case True
      let ?buf' = "remove1 (buf ! i) buf"
      have ne: "\<forall>x\<in>set (take i buf). x \<noteq> buf ! i"
        using 1(4) True by auto
      have buf': "?buf' = take i buf @ drop (Suc i) buf"
        using lt ne by (rule remove1_nth_first)
      have rest: "filter is_host_line (drop (Suc i) buf) = []"
        using 1(5) True dr by simp
      then have rest': "\<forall>x\<in>set (drop (Suc i) buf). \<not> is_host_line x"
        by (simp add: filter_empty_conv)
      have all': "\<forall>x\<in>set ?buf'. \<not> is_host_line x"
        using 1(4) rest' buf' by auto
      have nat': "\<forall>x\<in>set ?buf'. native x"
        using 1(3) by (auto dest: notin_set_remove1)
      have r: "remove_host_lines (Suc i) ?buf' = Inr (filter (\<lambda>x. \<not> is_host_line x) ?buf')"
      proof (rule 1(1) [OF lt ls True nat'])
        show "\<forall>x\<in>set (take (Suc i) ?buf'). \<not> is_host_line x"
          using all' by (meson in_set_takeD)
        have "filter is_host_line (drop (Suc i) ?buf') = []"
          using all' by (auto simp: filter_empty_conv dest: in_set_dropD)
        then show "length (filter is_host_line (drop (Suc i) ?buf')) \<le> 1"
          by simp
      qed
      have e1: "filter (\<lambda>x. \<not> is_host_line x) ?buf' = ?buf'"
        using all' by (simp add: filter_id_conv)
      have e2: "?buf' = filter (\<lambda>x. \<not> is_host_line x) buf"
      proof -
        have "filter (\<lambda>x. \<not> is_host_line x) buf =
              filter (\<lambda>x. \<not> is_host_line x) (take i buf @ buf ! i # drop (Suc i) buf)"
          using split by simp
        also have "\<dots> = take i buf @ drop (Suc i) buf"
          using 1(4) rest' True by (simp add: filter_id_conv)
        finally show ?thesis using buf' by simp
      qed
      have fe: "filter (\<lambda>x. \<not> is_host_line x) ?buf' = filter (\<lambda>x. \<not> is_host_line x) buf"
        using e1 e2 by (rule trans)
      have r': "remove_host_lines (Suc i) ?buf' = Inr (filter (\<lambda>x. \<not> is_host_line x) buf)"
        unfolding fe [symmetric] by (rule r)
      show ?thesis
        using lt True ls r' by (subst remove_host_lines.simps) simp
    next
      case False
      have "remove_host_lines (Suc i) buf = Inr (filter (\<lambda>x. \<not> is_host_line x) buf)"
      proof (rule 1(2) [OF lt ls False 1(3)])
        show "\<forall>x\<in>set (take (Suc i) buf). \<not> is_host_line x"
          using 1(4) False lt by (auto simp: take_Suc_conv_app_nth)
        show "length (filter is_host_line (drop (Suc i) buf)) \<le> 1"
          using 1(5) dr False by simp
      qed
      then show ?thesis
        using lt False ls by (subst remove_host_lines.simps) simp
    qed
  qed
qed

subsection \<open>A platform that never raises\<close>

lemma invoke_ok:
  "never_raises pf \<Longrightarrow> invoke pf c s = (Inr (), s\<lparr>trace := trace s @ [c]\<rparr>)"
  by (simp add: invoke_def never_raises_def)

lemma seq_Inr: "f s = (Inr a, s') \<Longrightarrow> seq f g s = g a s'"
  by (simp add: seq_def)

lemma seq_Inl: "f s = (Inl e, s') \<Longrightarrow> seq f g s = (Inl e, s')"
  by (simp add: seq_def)

lemma putheader_ok:
  "never_raises pf \<Longrightarrow>
   putheader pf c n v s =
     (Inr (c\<lparr>buffer := buffer c @ [header_line pf n v]\<rparr>),
      s\<lparr>trace := trace s @ [PutHeader n v]\<rparr>)"
  by (simp add: putheader_def seq_def invoke_ok)

lemma put_headers_ok:
  "never_raises pf \<Longrightarrow>
   put_headers pf c hs s =
     (Inr (c\<lparr>buffer := buffer c @ map (\<lambda>h. header_line pf (fst h) (snd h)) (sent_headers hs)\<rparr>),
      s\<lparr>trace := trace s @ map (\<lambda>h. PutHeader (fst h) (snd h)) (sent_headers hs)\<rparr>)"
proof (induction hs arbitrary: c s)
  case Nil
  then show ?case by simp
next
  case (Cons h hs)
  obtain n v where h: "h = (n, v)" by (cases h)
  show ?case
    using Cons by (cases v) (simp_all add: h putheader_ok)
qed

lemma send_request_headers_ok:
  assumes "never_raises pf"
  shows "send_request_headers pf c hs s =
     (case kept_lines (self s) (buffer c) of
        Inl e \<Rightarrow> (Inl e, s)
      | Inr ls \<Rightarrow>
          (Inr (c\<lparr>buffer := ls @
                  (if use_httplib (self s) \<and> truthy (proxy_host (self s))
                   then [header_line pf ''Host''
                           (format_str (tunnel_host c) @ '':'' @ format_int (tunnel_port c))]
                   else []) @
                  map (\<lambda>h. header_line pf (fst h) (snd h)) (sent_headers hs) @
                  [header_line pf ''User-Agent'' (user_agent pf)]\<rparr>),
           s\<lparr>trace := trace s @
                (if use_httplib (self s) \<and> truthy (proxy_host (self s))
                 then [PutHeader ''Host''
                         (format_str (tunnel_host c) @ '':'' @ format_int (tunnel_port c))]
                 else []) @
                map (\<lambda>h. PutHeader (fst h) (snd h)) (sent_headers hs) @
                [PutHeader ''User-Agent'' (user_agent pf),
                 EndHeaders (ls @
                  (if use_httplib (self s) \<and> truthy (proxy_host (self s))
                   then [header_line pf ''Host''
                           (format_str (tunnel_host c) @ '':'' @ format_int (tunnel_port c))]
                   else []) @
                  map (\<lambda>h. header_line pf (fst h) (snd h)) (sent_headers hs) @
                  [header_line pf ''User-Agent'' (user_agent pf)])]\<rparr>))"
  using assms
  by (auto simp: send_request_headers_def seq_def putheader_ok put_headers_ok endheaders_def
      invoke_ok kept_lines_def split: sum.splits)

lemma send_request_body_ok:
  "never_raises pf \<Longrightarrow>
   send_request_body pf c b s =
     (Inr (), s\<lparr>trace := trace s @
        (if truthy b then [Send b]
         else if kind c = WinHTTPConnection then [Send None] else [])\<rparr>)"
  by (cases "kind c") (simp_all add: send_request_body_def invoke_ok)

subsection \<open>Calls made before the response\<close>

lemma seq_cases:
  assumes "seq f g s = (res, s')"
  obtains (fail) e where "f s = (Inl e, s')" and "res = Inl e"
        | (ok) a s0 where "f s = (Inr a, s0)" and "g a s0 = (res, s')"
  using assms by (auto simp: seq_def split: prod.splits sum.splits)

lemma extends_refl: "extends s s"
  unfolding extends_def by (rule exI [of _ "[]"]) simp

lemma extends_trans: "extends s s1 \<Longrightarrow> extends s1 s2 \<Longrightarrow> extends s s2"
proof -
  assume "extends s s1" and "extends s1 s2"
  then obtain e1 e2 where
    "s1 = s\<lparr>trace := trace s @ e1\<rparr>" "list_all quiet e1"
    "s2 = s1\<lparr>trace := trace s1 @ e2\<rparr>" "list_all quiet e2"
    by (auto simp: extends_def)
  then have "s2 = s\<lparr>trace := trace s @ (e1 @ e2)\<rparr>" "list_all quiet (e1 @ e2)"
    by simp_all
  then show ?thesis
    unfolding extends_def by blast
qed

lemma extends_frame:
  assumes "extends s s'"
  shows "self s' = self s" and "heap s' = heap s" and "next_addr s' = next_addr s"
  using assms by (auto simp: extends_def)

lemma extends_trace:
  assumes "extends s s'"
  obtains ext where "trace s' = trace s @ ext" and "list_all quiet ext"
  using assms by (auto simp: extends_def)

lemma invoke_result:
  assumes "invoke pf c s = (res, s')"
  shows "s' = s\<lparr>trace := trace s @ [c]\<rparr>" and "\<not> (case res of Inl e \<Rightarrow> is_http_error e | Inr x \<Rightarrow> False)"
  using assms by (auto simp: invoke_def split: option.splits)

lemma invoke_extends:
  "quiet c \<Longrightarrow> invoke pf c s = (res, s') \<Longrightarrow> extends s s'"
  unfolding extends_def
  by (rule exI [of _ "[c]"]) (auto simp: invoke_def split: option.splits)

lemma invoke_not_http_error:
  "invoke pf c s = (Inl e, s') \<Longrightarrow> \<not> is_http_error e"
  by (auto simp: invoke_def split: option.splits)

lemma benign_invoke: "quiet c \<Longrightarrow> benign (invoke pf c)"
  unfolding benign_def by (blast intro: invoke_extends dest: invoke_not_http_error)

lemma benign_return: "benign (\<lambda>s. (Inr x, s))"
  by (simp add: benign_def extends_refl)

lemma benign_raise: "\<not> is_http_error e \<Longrightarrow> benign (\<lambda>s. (Inl e, s))"
  by (simp add: benign_def extends_refl)

lemma benign_seq:
  assumes "benign f" and "\<And>a. benign (g a)"
  shows "benign (seq f g)"
  unfolding benign_def
proof (intro allI impI)
  fix s res s'
  assume "seq f g s = (res, s')"
  then show "extends s s' \<and> (\<forall>e. res = Inl e \<longrightarrow> \<not> is_http_error e)"
  proof (cases rule: seq_cases)
    case (fail e)
    then show ?thesis using assms(1) by (auto simp: benign_def)
  next
    case (ok a s0)
    have "extends s s0" using ok(1) assms(1) by (auto simp: benign_def)
    moreover have "extends s0 s' \<and> (\<forall>e. res = Inl e \<longrightarrow> \<not> is_http_error e)"
      using ok(2) assms(2) [of a] by (auto simp: benign_def)
    ultimately show ?thesis by (blast intro: extends_trans)
  qed
qed

lemma benign_if: "benign f \<Longrightarrow> benign g \<Longrightarrow> benign (if b then f else g)"
  by simp

lemma benign_putheader: "benign (putheader pf c n v)"
  unfolding putheader_def by (intro benign_seq benign_invoke benign_return) (simp add: quiet_def)

lemma benign_putrequest: "benign (putrequest pf c m p)"
  unfolding putrequest_def by (intro benign_seq benign_invoke benign_return) (simp add: quiet_def)

lemma benign_set_tunnel: "benign (set_tunnel pf c h p hdrs)"
  unfolding set_tunnel_def by (intro benign_seq benign_invoke benign_return) (simp add: quiet_def)

lemma benign_endheaders: "benign (endheaders pf c)"
  unfolding endheaders_def by (intro benign_invoke) (simp add: quiet_def)

lemma benign_new_connection: "benign (new_connection k h p cert proto)"
proof -
  have "extends s (s\<lparr>trace := trace s @ [NewConnection k h p]\<rparr>)" for s
    unfolding extends_def
    by (rule exI [of _ "[NewConnection k h p]"]) (simp add: quiet_def)
  then show ?thesis
    by (auto simp: benign_def new_connection_def)
qed

lemma benign_put_headers: "benign (put_headers pf c hs)"
proof (induction hs arbitrary: c)
  case Nil
  have "put_headers pf c [] = (\<lambda>s. (Inr c, s))" by (rule ext) simp
  then show ?case by (simp add: benign_return)
next
  case (Cons h hs)
  obtain n v where h: "h = (n, v)" by (cases h)
  show ?case
  proof (cases "truthy v")
    case False
    then have "put_headers pf c (h # hs) = put_headers pf c hs"
      by (intro ext) (auto simp: h truthy_def split: option.splits)
    then show ?thesis using Cons by simp
  next
    case True
    then obtain x where v: "v = Some x" "x \<noteq> []"
      by (auto simp: truthy_def split: option.splits)
    have "put_headers pf c (h # hs) = seq (putheader pf c n x) (\<lambda>c'. put_headers pf c' hs)"
      by (intro ext) (simp add: h v seq_def)
    then show ?thesis
      using Cons by (simp add: benign_seq benign_putheader)
  qed
qed

lemma benign_pure:
  "(\<And>e. x = Inl e \<Longrightarrow> \<not> is_http_error e) \<Longrightarrow> benign (\<lambda>s. (x, s))"
  by (auto simp: benign_def extends_refl)

lemma benign_remove_host_lines: "benign (\<lambda>s. (remove_host_lines 0 buf, s))"
  by (rule benign_pure) (auto dest: remove_host_lines_type_error)

lemma benign_send_request_headers: "benign (send_request_headers pf c hs)"
proof -
  have eq: "send_request_headers pf c hs = (\<lambda>s.
     seq (if use_httplib (self s) \<and> truthy (proxy_host (self s))
          then seq (\<lambda>s'. (remove_host_lines 0 (buffer c), s'))
                 (\<lambda>ls. putheader pf (c\<lparr>buffer := ls\<rparr>) ''Host''
                         (format_str (tunnel_host c) @ '':'' @ format_int (tunnel_port c)))
          else (\<lambda>s'. (Inr c, s')))
       (\<lambda>c1. seq (put_headers pf c1 hs)
          (\<lambda>c2. seq (putheader pf c2 ''User-Agent'' (user_agent pf))
             (\<lambda>c3. seq (endheaders pf c3) (\<lambda>_ s'. (Inr c3, s'))))) s)"
    by (intro ext) (simp add: send_request_headers_def)
  have "\<And>s0. benign (seq (if use_httplib (self s0) \<and> truthy (proxy_host (self s0))
          then seq (\<lambda>s'. (remove_host_lines 0 (buffer c), s'))
                 (\<lambda>ls. putheader pf (c\<lparr>buffer := ls\<rparr>) ''Host''
                         (format_str (tunnel_host c) @ '':'' @ format_int (tunnel_port c)))
          else (\<lambda>s'. (Inr c, s')))
       (\<lambda>c1. seq (put_headers pf c1 hs)
          (\<lambda>c2. seq (putheader pf c2 ''User-Agent'' (user_agent pf))
             (\<lambda>c3. seq (endheaders pf c3) (\<lambda>_ s'. (Inr c3, s'))))))"
    by (intro benign_seq benign_if benign_putheader benign_put_headers benign_endheaders
        benign_return benign_remove_host_lines)
  then show ?thesis
    unfolding eq benign_def by blast
qed

lemma benign_send_request_body: "benign (send_request_body pf c b)"
proof -
  have "\<And>s0. benign (if truthy b then invoke pf (Send b)
      else if kind c \<noteq> HTTPSConnection \<and> kind c \<noteq> HTTPConnection
      then invoke pf (Send None) else (\<lambda>s. (Inr (), s)))"
    by (intro benign_if benign_invoke benign_return) (simp_all add: quiet_def)
  moreover have "send_request_body pf c b = (if truthy b then invoke pf (Send b)
      else if kind c \<noteq> HTTPSConnection \<and> kind c \<noteq> HTTPConnection
      then invoke pf (Send None) else (\<lambda>s. (Inr (), s)))"
    by (intro ext) (simp add: send_request_body_def)
  ultimately show ?thesis by simp
qed

lemma benign_open_tunnel: "benign (open_tunnel pf c ph pp)"
proof (cases pp)
  case None
  then have "open_tunnel pf c ph pp = (\<lambda>s. (Inl TypeError, s))"
    by (intro ext) (simp add: open_tunnel_def int_of_def)
  then show ?thesis by (simp add: benign_raise)
next
  case (Some p)
  have "\<And>s0. benign (set_tunnel pf c ph p (tunnel_auth_headers pf (self s0)))"
    by (rule benign_set_tunnel)
  moreover have "open_tunnel pf c ph pp = (\<lambda>s. set_tunnel pf c ph p (tunnel_auth_headers pf (self s)) s)"
    by (intro ext) (simp add: open_tunnel_def int_of_def Some)
  ultimately show ?thesis
    unfolding benign_def by auto
qed

lemma benignD:
  "benign f \<Longrightarrow> f s = (res, s') \<Longrightarrow> extends s s' \<and> (\<forall>e. res = Inl e \<longrightarrow> \<not> is_http_error e)"
  by (simp add: benign_def)

lemma benign_get_connection: "benign (get_connection pf r)"
  unfolding benign_def
proof (intro allI impI)
  fix s res s'
  assume gc: "get_connection pf r s = (res, s')"
  let ?proto = "effective_protocol (self s) r"
  let ?port = "if ?proto = ''http'' then HTTP_PORT else HTTPS_PORT"
  let ?thesis = "extends s s' \<and> (\<forall>e. res = Inl e \<longrightarrow> \<not> is_http_error e)"
  have tun: "benign (seq (new_connection k h p cert proto) (\<lambda>c. open_tunnel pf c ph pp))"
    for k h p cert proto ph pp
    by (intro benign_seq benign_new_connection benign_open_tunnel)
  show ?thesis
  proof (cases "use_httplib (self s)")
    case False
    show ?thesis
    proof (cases "if_true (proxy_host (self s))")
      case None
      then have "new_connection WinHTTPConnection (host r) None (cert_file (self s)) (Some ?proto) s = (res, s')"
        using gc False by (simp add: get_connection_def Let_def seq_def new_connection_def)
      then show ?thesis by (rule benignD [OF benign_new_connection])
    next
      case (Some ph)
      then have "seq (new_connection WinHTTPConnection (host r) None (cert_file (self s)) (Some ?proto))
                   (\<lambda>c. open_tunnel pf c ph (proxy_port (self s))) s = (res, s')"
        using gc False by (simp add: get_connection_def Let_def)
      then show ?thesis by (rule benignD [OF tun])
    qed
  next
    case True
    show ?thesis
    proof (cases "if_true (proxy_host (self s))")
      case None
      then have "new_connection (if ?proto = ''http'' then HTTPConnection else HTTPSConnection) (host r)
          (Some ?port) (if ?proto = ''http'' then None else cert_file (self s)) None s = (res, s')"
        using gc True by (auto simp: get_connection_def Let_def split: if_splits)
      then show ?thesis by (rule benignD [OF benign_new_connection])
    next
      case (Some ph)
      show ?thesis
      proof (cases "proxy_port (self s)")
        case None
        then have "res = Inl TypeError" "s' = s"
          using gc True Some by (simp_all add: get_connection_def Let_def int_of_def)
        then show ?thesis by (simp add: extends_refl)
      next
        case (Some pp)
        then have "seq (new_connection (if ?proto = ''http'' then HTTPConnection else HTTPSConnection) ph
            (Some pp) (if ?proto = ''http'' then None else cert_file (self s)) None)
            (\<lambda>c. open_tunnel pf c (host r) (Some ?port)) s = (res, s')"
          using gc True \<open>if_true (proxy_host (self s)) = Some ph\<close>
          by (auto simp: get_connection_def Let_def int_of_def split: if_splits)
        then show ?thesis by (rule benignD [OF tun])
      qed
    qed
  qed
qed

subsection \<open>The response and the close\<close>

lemma finally_close_result:
  assumes "finally_close pf (res, s) = (res', s')"
  shows "s' = s\<lparr>trace := trace s @ [Close]\<rparr>"
    and "res' = res \<or> (\<exists>x. res' = Inl (Propagated x))"
  using assms by (auto simp: finally_close_def invoke_def split: option.splits)

lemma read_cases:
  assumes "read pf n s = (res, s')"
  shows "s' = s\<lparr>trace := trace s @ [Read n]\<rparr>"
    and "(\<exists>x. res = Inl (Propagated x)) \<or> res = Inr (resp_read (response pf) n)"
  using assms by (auto simp: read_def seq_def invoke_def split: option.splits)

lemma read_response_done:
  assumes "read_response pf s = (res, s')"
    and "res = Inr resp \<or> res = Inl (HTTPError st msg a b)"
  shows "s' = after_response pf s"
    and "res = (if resp_status (response pf) \<ge> 300
                then Inl (HTTPError (resp_status (response pf)) (resp_reason (response pf))
                       (next_addr s) (body_read (response pf)))
                else Inr \<lparr>hr_status = resp_status (response pf),
                          hr_message = resp_reason (response pf),
                          hr_headers = next_addr s, hr_body = body_read (response pf)\<rparr>)"
  using assms
  by (auto simp: read_response_def seq_def invoke_def read_def Let_def after_response_def
      body_read_def read_calls_def lowercase_names_map
      split: option.splits if_splits sum.splits prod.splits)

lemma read_response_ok:
  assumes "never_raises pf"
  shows "read_response pf s =
    (if resp_status (response pf) \<ge> 300
                then Inl (HTTPError (resp_status (response pf)) (resp_reason (response pf))
                       (next_addr s) (body_read (response pf)))
                else Inr \<lparr>hr_status = resp_status (response pf),
                          hr_message = resp_reason (response pf),
                          hr_headers = next_addr s, hr_body = body_read (response pf)\<rparr>,
     after_response pf s)"
  using assms
  by (auto simp: read_response_def seq_def invoke_ok read_def Let_def after_response_def
      body_read_def read_calls_def lowercase_names_map
      split: option.splits)

lemma read_response_no_close:
  assumes "read_response pf s = (res, s')"
  shows "\<exists>ext. trace s' = trace s @ ext \<and> Close \<notin> set ext"
  using assms
  by (auto simp: read_response_def seq_def invoke_def read_def Let_def
      split: option.splits if_splits sum.splits prod.splits)

lemma try_body_cases:
  assumes "try_body pf c r s = (res, s')"
  obtains (response) s0 where "extends s s0" and "read_response pf s0 = (res, s')"
        | (failed) e where "res = Inl e" and "\<not> is_http_error e" and "extends s s'"
proof -
  let ?cred = "if \<not> use_httplib (self s) \<and> truthy (proxy_host (self s)) \<and> truthy (proxy_user (self s))
               then invoke pf (SetProxyCredentials (proxy_user (self s)) (proxy_password (self s)))
               else (\<lambda>s'. (Inr (), s'))"
  have cred: "benign ?cred"
    by (intro benign_if benign_invoke benign_return) (simp add: quiet_def)
  from assms have "seq (putrequest pf c (req_method r) (path r))
       (\<lambda>c1. seq ?cred
          (\<lambda>_. seq (send_request_headers pf c1 (headers r))
             (\<lambda>c2. seq (send_request_body pf c2 (body r))
                (\<lambda>_. read_response pf)))) s = (res, s')"
    by (simp add: try_body_def)
  then show thesis
  proof (cases rule: seq_cases)
    case (fail e)
    then show ?thesis
      using benignD [OF benign_putrequest fail(1)] failed by blast
  next
    case (ok c1 s1)
    have e1: "extends s s1"
      using benignD [OF benign_putrequest ok(1)] by simp
    from ok(2) show ?thesis
    proof (cases rule: seq_cases)
      case (fail e)
      then show ?thesis
        using benignD [OF cred fail(1)] e1 failed by (blast intro: extends_trans)
    next
      case (ok u s2)
      have e2: "extends s s2"
        using benignD [OF cred ok(1)] e1 by (blast intro: extends_trans)
      from ok(2) show ?thesis
      proof (cases rule: seq_cases)
        case (fail e)
        then show ?thesis
          using benignD [OF benign_send_request_headers fail(1)] e2 failed
          by (blast intro: extends_trans)
      next
        case (ok c2 s3)
        have e3: "extends s s3"
          using benignD [OF benign_send_request_headers ok(1)] e2 by (blast intro: extends_trans)
        from ok(2) show ?thesis
        proof (cases rule: seq_cases)
          case (fail e)
          then show ?thesis
            using benignD [OF benign_send_request_body fail(1)] e3 failed
            by (blast intro: extends_trans)
        next
          case (ok v s4)
          have "extends s s4"
            using benignD [OF benign_send_request_body ok(1)] e3 by (blast intro: extends_trans)
          then show ?thesis
            using ok(2) response by blast
        qed
      qed
    qed
  qed
qed

lemma try_body_no_close:
  assumes "try_body pf c r s = (res, s')"
  shows "\<exists>ext. trace s' = trace s @ ext \<and> Close \<notin> set ext"
  using assms
proof (cases rule: try_body_cases)
  case (response s0)
  from response(1) obtain e1 where e1: "trace s0 = trace s @ e1" "list_all quiet e1"
    by (rule extends_trace)
  from read_response_no_close [OF response(2)] obtain e2 where
    e2: "trace s' = trace s0 @ e2" "Close \<notin> set e2" by blast
  have "Close \<notin> set e1"
    using e1(2) by (auto simp: list_all_iff quiet_def)
  then have "trace s' = trace s @ (e1 @ e2) \<and> Close \<notin> set (e1 @ e2)"
    using e1 e2 by simp
  then show ?thesis by blast
next
  case (failed e)
  from failed(3) obtain e1 where e1: "trace s' = trace s @ e1" "list_all quiet e1"
    by (rule extends_trace)
  then have "Close \<notin> set e1"
    by (auto simp: list_all_iff quiet_def)
  then show ?thesis using e1 by blast
qed

lemma get_connection_extends:
  "get_connection pf r s = (res, s1) \<Longrightarrow> extends s s1"
  using benignD [OF benign_get_connection] by blast

lemma perform_request_failed_connection:
  "get_connection pf r s = (Inl e, s1) \<Longrightarrow> perform_request pf r s = (Inl e, s1)"
  by (simp add: perform_request_def)

lemma perform_request_connected:
  "get_connection pf r s = (Inr c, s1) \<Longrightarrow>
   perform_request pf r s = finally_close pf (try_body pf c r s1)"
  by (simp add: perform_request_def)

lemma count_list_app: "count_list (xs @ ys) x = count_list xs x + count_list ys x"
  by (induction xs) auto

lemma count_list_absent: "x \<notin> set xs \<Longrightarrow> count_list xs x = 0"
  by (induction xs) auto

lemma putrequest_ok:
  "never_raises pf \<Longrightarrow>
   putrequest pf c m p s =
     (Inr (c\<lparr>buffer := buffer c @ putrequest_lines pf c m p\<rparr>),
      s\<lparr>trace := trace s @ [PutRequest m p]\<rparr>)"
  by (simp add: putrequest_def seq_def invoke_ok)

lemma kept_lines_Inl:
  assumes "kept_lines cl buf = Inl e"
  shows "use_httplib cl" and "truthy (proxy_host cl)" and "e = TypeError"
  using assms by (auto simp: kept_lines_def split: if_splits dest: remove_host_lines_type_error)

lemma try_body_ok:
  assumes "never_raises pf"
  shows "try_body pf c r s =
     (case kept_lines (self s) (buffer c @ putrequest_lines pf c (req_method r) (path r)) of
        Inl e \<Rightarrow>
          (Inl e, s\<lparr>trace := trace s @ PutRequest (req_method r) (path r) #
                                 credential_calls (self s)\<rparr>)
      | Inr ls \<Rightarrow>
          read_response pf (s\<lparr>trace := trace s @ request_calls pf c r (self s) ls\<rparr>))"
  using assms
  by (auto simp: try_body_def seq_def putrequest_ok invoke_ok send_request_headers_ok
      send_request_body_ok request_calls_def header_section_def credential_calls_def
      split: sum.splits)

lemma finally_close_ok:
  "never_raises pf \<Longrightarrow> finally_close pf (res, s) = (res, s\<lparr>trace := trace s @ [Close]\<rparr>)"
  by (simp add: finally_close_def invoke_ok)

subsection \<open>The whole dispatch\<close>

lemma new_connection_eq:
  "new_connection k h p cert proto s = (Inr c, s1) \<longleftrightarrow>
     c = \<lparr>kind = k, conn_host = h, conn_port = p, conn_cert_file = cert, conn_protocol = proto,
          tunnel_host = None, tunnel_port = None, tunnel_headers = None, buffer = []\<rparr> \<and>
     s1 = s\<lparr>trace := trace s @ [NewConnection k h p]\<rparr>"
  by (auto simp: new_connection_def)

lemma open_tunnel_Inr:
  assumes "open_tunnel pf c ph pp s = (Inr c', s')"
  shows "\<exists>p. pp = Some p \<and>
      c' = c\<lparr>tunnel_host := Some ph, tunnel_port := Some p,
              tunnel_headers := tunnel_auth_headers pf (self s)\<rparr> \<and>
      s' = s\<lparr>trace := trace s @ [SetTunnel ph p (tunnel_auth_headers pf (self s))]\<rparr>"
  using assms
  by (auto simp: open_tunnel_def int_of_def set_tunnel_def seq_def invoke_def Let_def
      split: option.splits)

text \<open>The connection that \<open>get_connection\<close> returns, case by case.\<close>

lemma get_connection_Inr:
  assumes "get_connection pf r s = (Inr c, s1)"
  defines "proto \<equiv> effective_protocol (self s) r"
  defines "port \<equiv> (if proto = ''http'' then HTTP_PORT else HTTPS_PORT)"
  shows "s1 = s\<lparr>trace := trace s @ connection_calls c\<rparr>"
    and "buffer c = []"
    and "kind c = (if \<not> use_httplib (self s) then WinHTTPConnection
                   else if proto = ''http'' then HTTPConnection else HTTPSConnection)"
    and "tunnel_headers c =
           (if truthy (proxy_host (self s)) then tunnel_auth_headers pf (self s) else None)"
    and "conn_host c =
           (if use_httplib (self s) \<and> truthy (proxy_host (self s))
            then format_str (proxy_host (self s)) else host r)"
    and "conn_port c =
           (if \<not> use_httplib (self s) then None
            else if truthy (proxy_host (self s)) then proxy_port (self s) else Some port)"
    and "tunnel_host c =
           (if \<not> truthy (proxy_host (self s)) then None
            else if use_httplib (self s) then Some (host r) else proxy_host (self s))"
    and "tunnel_port c =
           (if \<not> truthy (proxy_host (self s)) then None
            else if use_httplib (self s) then Some port else proxy_port (self s))"
    and "truthy (proxy_host (self s)) \<longrightarrow> tunnel_port c \<noteq> None"
proof -
  have *: "s1 = s\<lparr>trace := trace s @ connection_calls c\<rparr> \<and> buffer c = [] \<and>
    kind c = (if \<not> use_httplib (self s) then WinHTTPConnection
                   else if proto = ''http'' then HTTPConnection else HTTPSConnection) \<and>
    tunnel_headers c =
           (if truthy (proxy_host (self s)) then tunnel_auth_headers pf (self s) else None) \<and>
    conn_host c =
           (if use_httplib (self s) \<and> truthy (proxy_host (self s))
            then format_str (proxy_host (self s)) else host r) \<and>
    conn_port c =
           (if \<not> use_httplib (self s) then None
            else if truthy (proxy_host (self s)) then proxy_port (self s) else Some port) \<and>
    tunnel_host c =
           (if \<not> truthy (proxy_host (self s)) then None
            else if use_httplib (self s) then Some (host r) else proxy_host (self s)) \<and>
    tunnel_port c =
           (if \<not> truthy (proxy_host (self s)) then None
            else if use_httplib (self s) then Some port else proxy_port (self s)) \<and>
    (truthy (proxy_host (self s)) \<longrightarrow> tunnel_port c \<noteq> None)"
  proof (cases "if_true (proxy_host (self s))")
    case None
    then have nt: "\<not> truthy (proxy_host (self s))"
      by (auto simp: if_true_def truthy_def split: if_splits)
    show ?thesis
      using assms(1) None nt
      by (auto simp: get_connection_def Let_def seq_def new_connection_def connection_calls_def
          proto_def port_def split: if_splits)
  next
    case (Some ph)
    then have tr: "truthy (proxy_host (self s))" and ph: "proxy_host (self s) = Some ph"
      by (auto simp: if_true_def split: if_splits)
    show ?thesis
    proof (cases "use_httplib (self s)")
      case False
      let ?c0 = "\<lparr>kind = WinHTTPConnection, conn_host = host r, conn_port = None,
          conn_cert_file = cert_file (self s), conn_protocol = Some proto,
          tunnel_host = None, tunnel_port = None, tunnel_headers = None, buffer = []\<rparr>"
      let ?s0 = "s\<lparr>trace := trace s @ [NewConnection WinHTTPConnection (host r) None]\<rparr>"
      have "open_tunnel pf ?c0 ph (proxy_port (self s)) ?s0 = (Inr c, s1)"
        using assms(1) False Some
        by (simp add: get_connection_def Let_def seq_def new_connection_def proto_def)
      from open_tunnel_Inr [OF this] show ?thesis
        using False tr ph by (auto simp: connection_calls_def format_str_def)
    next
      case True
      obtain pp where pp: "proxy_port (self s) = Some pp"
        using assms(1) True Some
        by (cases "proxy_port (self s)") (auto simp: get_connection_def Let_def int_of_def)
      let ?k = "if proto = ''http'' then HTTPConnection else HTTPSConnection"
      let ?c0 = "\<lparr>kind = ?k, conn_host = ph, conn_port = Some pp,
          conn_cert_file = (if proto = ''http'' then None else cert_file (self s)),
          conn_protocol = None,
          tunnel_host = None, tunnel_port = None, tunnel_headers = None, buffer = []\<rparr>"
      let ?s0 = "s\<lparr>trace := trace s @ [NewConnection ?k ph (Some pp)]\<rparr>"
      have "open_tunnel pf ?c0 (host r) (Some port) ?s0 = (Inr c, s1)"
        using assms(1) True Some pp
        by (auto simp: get_connection_def Let_def seq_def new_connection_def proto_def port_def
            int_of_def split: if_splits)
      from open_tunnel_Inr [OF this] show ?thesis
        using True tr ph pp by (auto simp: connection_calls_def format_str_def)
    qed
  qed
  show "s1 = s\<lparr>trace := trace s @ connection_calls c\<rparr>"
    and "buffer c = []"
    and "kind c = (if \<not> use_httplib (self s) then WinHTTPConnection
                   else if proto = ''http'' then HTTPConnection else HTTPSConnection)"
    and "tunnel_headers c =
           (if truthy (proxy_host (self s)) then tunnel_auth_headers pf (self s) else None)"
    and "conn_host c =
           (if use_httplib (self s) \<and> truthy (proxy_host (self s))
            then format_str (proxy_host (self s)) else host r)"
    and "conn_port c =
           (if \<not> use_httplib (self s) then None
            else if truthy (proxy_host (self s)) then proxy_port (self s) else Some port)"
    and "tunnel_host c =
           (if \<not> truthy (proxy_host (self s)) then None
            else if use_httplib (self s) then Some (host r) else proxy_host (self s))"
    and "tunnel_port c =
           (if \<not> truthy (proxy_host (self s)) then None
            else if use_httplib (self s) then Some port else proxy_port (self s))"
    and "truthy (proxy_host (self s)) \<longrightarrow> tunnel_port c \<noteq> None"
    using * by blast+
qed

lemma perform_request_ok:
  assumes "never_raises pf" and "get_connection pf r s = (Inr c, s1)"
  shows "perform_request pf r s =
     (case kept_lines (self s) (putrequest_lines pf c (req_method r) (path r)) of
        Inl e \<Rightarrow>
          (Inl e, s\<lparr>trace := trace s @ connection_calls c @
                     PutRequest (req_method r) (path r) # credential_calls (self s) @ [Close]\<rparr>)
      | Inr ls \<Rightarrow>
          (outcome (response pf) (next_addr s),
           (after_response pf
              (s\<lparr>trace := trace s @ connection_calls c @ request_calls pf c r (self s) ls\<rparr>))
             \<lparr>trace := trace s @ connection_calls c @ request_calls pf c r (self s) ls @
                       GetResponse # read_calls (response pf) @ [Close]\<rparr>))"
proof -
  have s1: "s1 = s\<lparr>trace := trace s @ connection_calls c\<rparr>"
    using assms(2) by (rule get_connection_Inr)
  have b: "buffer c = []"
    using assms(2) by (rule get_connection_Inr)
  show ?thesis
    using assms(1)
    by (simp add: perform_request_connected [OF assms(2)] try_body_ok read_response_ok
        finally_close_ok s1 b outcome_def after_response_def split: sum.splits)
qed

lemma perform_request_responded:
  assumes "perform_request pf r s = (res, s')"
    and "res = Inr resp \<or> res = Inl (HTTPError st msg a b)"
  obtains s0 where "extends s s0"
    and "s' = (after_response pf s0)\<lparr>trace := trace (after_response pf s0) @ [Close]\<rparr>"
    and "res = outcome (response pf) (next_addr s)"
proof -
  obtain g s1 where gc: "get_connection pf r s = (g, s1)"
    by (cases "get_connection pf r s")
  have e1: "extends s s1"
    using gc by (rule get_connection_extends)
  show thesis
  proof (cases g)
    case (Inl e)
    then have "perform_request pf r s = (Inl e, s1)"
      using gc by (simp add: perform_request_failed_connection)
    moreover have "\<not> is_http_error e"
      using benignD [OF benign_get_connection gc] Inl by simp
    ultimately show ?thesis
      using assms by auto
  next
    case (Inr c)
    obtain res2 s2 where tb: "try_body pf c r s1 = (res2, s2)"
      by (cases "try_body pf c r s1")
    have fc: "finally_close pf (res2, s2) = (res, s')"
      using gc Inr tb assms(1) by (simp add: perform_request_connected)
    have s': "s' = s2\<lparr>trace := trace s2 @ [Close]\<rparr>"
      using fc by (rule finally_close_result)
    have "res = res2"
      using finally_close_result(2) [OF fc] assms(2) by auto
    from tb show ?thesis
    proof (cases rule: try_body_cases)
      case (response s0)
      have e0: "extends s s0"
        using e1 response(1) by (rule extends_trans)
      have rr: "read_response pf s0 = (res, s2)"
        using response(2) \<open>res = res2\<close> by simp
      have "s2 = after_response pf s0"
        using read_response_done(1) [OF rr assms(2)] .
      moreover have "res = outcome (response pf) (next_addr s0)"
        using read_response_done(2) [OF rr assms(2)] by (simp add: outcome_def)
      moreover have "next_addr s0 = next_addr s"
        using e0 by (rule extends_frame)
      ultimately show ?thesis
        using that e0 s' by simp
    next
      case (failed e)
      then show ?thesis
        using assms(2) \<open>res = res2\<close> by auto
    qed
  qed
qed

lemma get_connection_Inr':
  assumes "fst (get_connection pf r s) = Inr c"
  shows "get_connection pf r s = (Inr c, snd (get_connection pf r s))"
  using assms by (simp add: prod_eq_iff)

lemma perform_request_ok':
  assumes "never_raises pf" and "fst (get_connection pf r s) = Inr c"
  shows "perform_request pf r s =
     (case kept_lines (self s) (putrequest_lines pf c (req_method r) (path r)) of
        Inl e \<Rightarrow>
          (Inl e, s\<lparr>trace := trace s @ connection_calls c @
                     PutRequest (req_method r) (path r) # credential_calls (self s) @ [Close]\<rparr>)
      | Inr ls \<Rightarrow>
          (outcome (response pf) (next_addr s),
           (after_response pf
              (s\<lparr>trace := trace s @ connection_calls c @ request_calls pf c r (self s) ls\<rparr>))
             \<lparr>trace := trace s @ connection_calls c @ request_calls pf c r (self s) ls @
                       GetResponse # read_calls (response pf) @ [Close]\<rparr>))"
  using perform_request_ok [OF assms(1), of r s c "snd (get_connection pf r s)"] assms(2)
  by (simp add: prod_eq_iff)

lemma perform_request_responded':
  assumes "fst (perform_request pf r s) = res"
    and "res = Inr resp \<or> res = Inl (HTTPError st msg a b)"
  obtains s0 where "extends s s0"
    and "snd (perform_request pf r s) =
           (after_response pf s0)\<lparr>trace := trace (after_response pf s0) @ [Close]\<rparr>"
    and "res = outcome (response pf) (next_addr s)"
proof -
  have "perform_request pf r s = (res, snd (perform_request pf r s))"
    using assms(1) by (simp add: prod_eq_iff)
  from this assms(2) show thesis
    by (rule perform_request_responded) (rule that)
qed

lemma lowered_names: "list_all (\<lambda>h. lowercase_name (fst h)) (map (\<lambda>h. (lower (fst h), snd h)) hs)"
  using lower_no_upper by (simp add: list_all_iff lowercase_name_def)

lemma filter_send_headers: "filter is_send (map (\<lambda>h. PutHeader (fst h) (snd h)) hs) = []"
  by (induction hs) auto

lemma filter_send_reads: "filter is_send (read_calls resp) = []"
  by (simp add: read_calls_def split: option.splits)

lemma filter_send_connection: "filter is_send (connection_calls c) = []"
  by (simp add: connection_calls_def split: option.splits)

lemma str_int_ports: "str_int 80 = ''80''" "str_int 443 = ''443''"
  by (simp_all add: str_int_def str_nat.simps)

lemma filter_quiet_reads: "list_all quiet ext \<Longrightarrow> filter is_read ext = []"
  by (auto simp: list_all_iff quiet_def filter_empty_conv)

lemma read_response_reads:
  assumes "read_response pf s = (res, s')"
  shows "\<exists>ext. trace s' = trace s @ ext \<and>
           (filter is_read ext = [] \<or> filter is_read ext = read_calls (response pf))"
  using assms
  by (auto simp: read_response_def seq_def invoke_def read_def Let_def read_calls_def
      split: option.splits if_splits sum.splits prod.splits)

lemma perform_request_reads:
  "filter is_read (new_calls s (snd (perform_request pf r s))) = [] \<or>
   filter is_read (new_calls s (snd (perform_request pf r s))) = read_calls (response pf)"
proof -
  obtain g s1 where gc: "get_connection pf r s = (g, s1)"
    by (cases "get_connection pf r s")
  from get_connection_extends [OF gc] obtain e1 where
    e1: "trace s1 = trace s @ e1" "list_all quiet e1"
    by (rule extends_trace)
  have q1: "filter is_read e1 = []"
    using e1(2) by (rule filter_quiet_reads)
  show ?thesis
  proof (cases g)
    case (Inl e)
    then have "perform_request pf r s = (Inl e, s1)"
      using gc by (simp add: perform_request_failed_connection)
    then show ?thesis
      using e1 q1 by (simp add: new_calls_def)
  next
    case (Inr c)
    obtain res s2 where tb: "try_body pf c r s1 = (res, s2)"
      by (cases "try_body pf c r s1")
    obtain res' s3 where fc: "finally_close pf (res, s2) = (res', s3)"
      by (cases "finally_close pf (res, s2)")
    have s3: "s3 = s2\<lparr>trace := trace s2 @ [Close]\<rparr>"
      using fc by (rule finally_close_result)
    have pr: "perform_request pf r s = (res', s3)"
      using gc Inr tb fc by (simp add: perform_request_connected)
    have "\<exists>e2. trace s2 = trace s1 @ e2 \<and>
            (filter is_read e2 = [] \<or> filter is_read e2 = read_calls (response pf))"
      using tb
    proof (cases rule: try_body_cases)
      case (response s0)
      from response(1) obtain e0 where e0: "trace s0 = trace s1 @ e0" "list_all quiet e0"
        by (rule extends_trace)
      from read_response_reads [OF response(2)] obtain e where
        e: "trace s2 = trace s0 @ e"
           "filter is_read e = [] \<or> filter is_read e = read_calls (response pf)"
        by blast
      have "trace s2 = trace s1 @ (e0 @ e)"
        using e0 e by simp
      moreover have "filter is_read (e0 @ e) = filter is_read e"
        using filter_quiet_reads [OF e0(2)] by simp
      ultimately show ?thesis
        using e(2) by metis
    next
      case (failed e)
      from failed(3) obtain e0 where e0: "trace s2 = trace s1 @ e0" "list_all quiet e0"
        by (rule extends_trace)
      then show ?thesis
        using filter_quiet_reads [OF e0(2)] by metis
    qed
    then obtain e2 where e2: "trace s2 = trace s1 @ e2"
      "filter is_read e2 = [] \<or> filter is_read e2 = read_calls (response pf)"
      by blast
    have "trace s3 = trace s @ (e1 @ e2 @ [Close])"
      using s3 e1 e2 by simp
    then have "filter is_read (new_calls s s3) = filter is_read e2"
      using q1 by (simp add: new_calls_def)
    then show ?thesis
      using pr e2(2) by simp
  qed
qed

subsection \<open>The example inputs, evaluated\<close>

lemma quiet_platform_never_raises: "never_raises (quiet_platform resp)"
  by (simp add: never_raises_def quiet_platform_def)

lemmas example_defs =
  quiet_platform_def failing_platform_def python3_platform_def posix_client_def
  windows_client_def blob_request_def initial_state_def set_proxy_def

lemmas get_connection_defs =
  get_connection_def effective_protocol_def if_true_def truthy_def new_connection_def
  open_tunnel_def set_tunnel_def int_of_def seq_def invoke_def tunnel_auth_headers_def
  HTTP_PORT_def HTTPS_PORT_def Let_def

lemma get_connection_direct:
  "fst (get_connection (quiet_platform resp) blob_request (initial_state posix_client)) =
     Inr direct_connection"
  by (simp add: example_defs get_connection_defs direct_connection_def)

lemma get_connection_direct_failing:
  "fst (get_connection (failing_platform resp) blob_request (initial_state posix_client)) =
     Inr direct_connection"
  by (simp add: example_defs get_connection_defs direct_connection_def)

lemma get_connection_tunnelled:
  "fst (get_connection (quiet_platform resp) blob_request
     (initial_state (set_proxy (Some ''proxy.local'') (Some 8080) None None posix_client))) =
     Inr tunnelled_connection"
  by (simp add: example_defs get_connection_defs tunnelled_connection_def)

lemma python3_platform_never_raises: "never_raises (python3_platform resp)"
  by (simp add: never_raises_def python3_platform_def quiet_platform_def)

lemma get_connection_tunnelled_python3:
  "fst (get_connection (python3_platform resp) blob_request
     (initial_state (set_proxy (Some ''proxy.local'') (Some 8080) None None posix_client))) =
     Inr tunnelled_connection"
  by (simp add: example_defs get_connection_defs tunnelled_connection_def)

lemma get_connection_windows:
  "fst (get_connection (quiet_platform resp) blob_request
     (initial_state (set_proxy (Some ''proxy.local'') (Some 8080) None None windows_client))) =
     Inr windows_connection"
  by (simp add: example_defs get_connection_defs windows_connection_def)

lemma get_connection_authorized:
  "fst (get_connection (quiet_platform resp) blob_request
     (initial_state (set_proxy (Some ''proxy.local'') (Some 8080) (Some ''user'') (Some ''secret'')
        posix_client))) =
     Inr (tunnelled_connection\<lparr>tunnel_headers :=
            Some [(''Proxy-Authorization'', ''Basic dXNlcjpzZWNyZXQ='' @ [CHR 0x0A])]\<rparr>)"
  by (simp add: example_defs get_connection_defs tunnelled_connection_def format_str_def
      b64_encodestring_def b64_lines.simps b64_alphabet_def)

lemma get_connection_user_only:
  "fst (get_connection (quiet_platform resp) blob_request
     (initial_state (set_proxy (Some ''proxy.local'') (Some 8080) (Some ''user'') None
        posix_client))) =
     Inr tunnelled_connection"
  by (simp add: example_defs get_connection_defs tunnelled_connection_def)

lemmas dispatch_defs =
  content_reader_def outcome_def after_response_def connection_calls_def request_calls_def
  header_section_def credential_calls_def kept_lines_def remove_host_lines.simps
  line_startswith_def startswith_def read_calls_def body_read_def truthy_def lower_def
  lower_char_def isupper_def

lemmas input_defs =
  quiet_platform_def server_200_def server_204_def server_404_def blob_request_def
  initial_state_def posix_client_def windows_client_def set_proxy_def
  direct_connection_def tunnelled_connection_def windows_connection_def

lemmas body_defs =
  perform_request_def try_body_def putrequest_def send_request_headers_def putheader_def
  endheaders_def send_request_body_def read_response_def read_def finally_close_def

lemma perform_request_200:
  "perform_request (quiet_platform server_200) blob_request (initial_state posix_client) =
    (Inr \<lparr>hr_status = 200, hr_message = ''OK'', hr_headers = 0,
          hr_body = Some ''hello world!!''\<rparr>,
     \<lparr>self = posix_client\<lparr>status := Some 200, message := Some ''OK'', respheader := Some 0\<rparr>,
      heap = (\<lambda>a. None)(0 \<mapsto> [(''content-length'', ''13'')]),
      next_addr = 1,
      trace = [NewConnection HTTPSConnection ''example.blob.core.windows.net'' (Some 443),
               PutRequest ''GET'' ''/blob'',
               PutHeader ''x-ms-version'' ''2021-08-06'',
               PutHeader ''User-Agent'' ''pyazure'',
               EndHeaders (map Str [''GET /blob HTTP/1.1'', ''Host: example.blob.core.windows.net'',
                           ''Accept-Encoding: identity'', ''x-ms-version: 2021-08-06'',
                           ''User-Agent: pyazure'']),
               GetResponse, Read (Some 13), Close]\<rparr>)"
  by (subst perform_request_ok' [OF quiet_platform_never_raises get_connection_direct])
     (simp add: dispatch_defs input_defs)

lemma perform_request_204:
  "perform_request (quiet_platform server_204) blob_request (initial_state posix_client) =
    (Inr \<lparr>hr_status = 204, hr_message = ''No Content'', hr_headers = 0, hr_body = None\<rparr>,
     \<lparr>self = posix_client\<lparr>status := Some 204, message := Some ''No Content'',
                            respheader := Some 0\<rparr>,
      heap = (\<lambda>a. None)(0 \<mapsto> [(''content-length'', ''0'')]),
      next_addr = 1,
      trace = [NewConnection HTTPSConnection ''example.blob.core.windows.net'' (Some 443),
               PutRequest ''GET'' ''/blob'',
               PutHeader ''x-ms-version'' ''2021-08-06'',
               PutHeader ''User-Agent'' ''pyazure'',
               EndHeaders (map Str [''GET /blob HTTP/1.1'', ''Host: example.blob.core.windows.net'',
                           ''Accept-Encoding: identity'', ''x-ms-version: 2021-08-06'',
                           ''User-Agent: pyazure'']),
               GetResponse, Close]\<rparr>)"
  by (subst perform_request_ok' [OF quiet_platform_never_raises get_connection_direct])
     (simp add: dispatch_defs input_defs)

lemma perform_request_404:
  "perform_request (quiet_platform server_404) blob_request (initial_state posix_client) =
    (Inl (HTTPError 404 ''Not Found'' 0 (Some ''not found'')),
     \<lparr>self = posix_client\<lparr>status := Some 404, message := Some ''Not Found'', respheader := Some 0\<rparr>,
      heap = (\<lambda>a. None)(0 \<mapsto> [(''content-type'', ''text/plain'')]),
      next_addr = 1,
      trace = [NewConnection HTTPSConnection ''example.blob.core.windows.net'' (Some 443),
               PutRequest ''GET'' ''/blob'',
               PutHeader ''x-ms-version'' ''2021-08-06'',
               PutHeader ''User-Agent'' ''pyazure'',
               EndHeaders (map Str [''GET /blob HTTP/1.1'', ''Host: example.blob.core.windows.net'',
                           ''Accept-Encoding: identity'', ''x-ms-version: 2021-08-06'',
                           ''User-Agent: pyazure'']),
               GetResponse, Read (Some 9), Close]\<rparr>)"
  by (subst perform_request_ok' [OF quiet_platform_never_raises get_connection_direct])
     (simp add: dispatch_defs input_defs)

lemma perform_request_tunnelled:
  "trace (snd (perform_request (quiet_platform server_200) blob_request
     (initial_state (set_proxy (Some ''proxy.local'') (Some 8080) None None posix_client)))) =
     [NewConnection HTTPSConnection ''proxy.local'' (Some 8080),
      SetTunnel ''example.blob.core.windows.net'' 443 None,
      PutRequest ''GET'' ''/blob'',
      PutHeader ''Host'' ''example.blob.core.windows.net:443'',
      PutHeader ''x-ms-version'' ''2021-08-06'',
      PutHeader ''User-Agent'' ''pyazure'',
      EndHeaders (map Str [''GET /blob HTTP/1.1'', ''Accept-Encoding: identity'',
                  ''Host: example.blob.core.windows.net:443'', ''x-ms-version: 2021-08-06'',
                  ''User-Agent: pyazure'']),
      GetResponse, Read (Some 13), Close]"
  by (subst perform_request_ok' [OF quiet_platform_never_raises get_connection_tunnelled])
     (simp add: dispatch_defs input_defs format_str_def format_int_def str_int_ports
        remove_host_lines.simps startswith_def)

lemma perform_request_windows:
  "trace (snd (perform_request (quiet_platform server_200) blob_request
     (initial_state (set_proxy (Some ''proxy.local'') (Some 8080) None None windows_client)))) =
     [NewConnection WinHTTPConnection ''example.blob.core.windows.net'' None,
      SetTunnel ''proxy.local'' 8080 None,
      PutRequest ''GET'' ''/blob'',
      PutHeader ''x-ms-version'' ''2021-08-06'',
      PutHeader ''User-Agent'' ''pyazure'',
      EndHeaders (map Str [''x-ms-version: 2021-08-06'', ''User-Agent: pyazure'']),
      Send None, GetResponse, Read (Some 13), Close]"
  by (subst perform_request_ok' [OF quiet_platform_never_raises get_connection_windows])
     (simp add: dispatch_defs input_defs)

lemma perform_request_python3:
  "perform_request (python3_platform server_200) blob_request
     (initial_state (set_proxy (Some ''proxy.local'') (Some 8080) None None posix_client)) =
   (Inl TypeError,
    (initial_state (set_proxy (Some ''proxy.local'') (Some 8080) None None posix_client))
      \<lparr>trace := [NewConnection HTTPSConnection ''proxy.local'' (Some 8080),
                 SetTunnel ''example.blob.core.windows.net'' 443 None,
                 PutRequest ''GET'' ''/blob'', Close]\<rparr>)"
  by (subst perform_request_ok' [OF python3_platform_never_raises get_connection_tunnelled_python3])
     (simp add: dispatch_defs input_defs python3_platform_def)

lemma perform_request_unconnected:
  "perform_request (quiet_platform server_200) blob_request
     (initial_state (set_proxy (Some ''proxy.local'') None None None windows_client)) =
   (Inl TypeError,
    (initial_state (set_proxy (Some ''proxy.local'') None None None windows_client))
      \<lparr>trace := [NewConnection WinHTTPConnection ''example.blob.core.windows.net'' None]\<rparr>)"
  by (simp add: perform_request_def example_defs get_connection_defs)

lemma perform_request_failing:
  "perform_request (failing_platform server_200) blob_request (initial_state posix_client) =
   (Inl (Propagated ''timed out''),
    (initial_state posix_client)
      \<lparr>trace := [NewConnection HTTPSConnection ''example.blob.core.windows.net'' (Some 443),
               PutRequest ''GET'' ''/blob'',
               PutHeader ''x-ms-version'' ''2021-08-06'',
               PutHeader ''User-Agent'' ''pyazure'',
               EndHeaders (map Str [''GET /blob HTTP/1.1'', ''Host: example.blob.core.windows.net'',
                           ''Accept-Encoding: identity'', ''x-ms-version: 2021-08-06'',
                           ''User-Agent: pyazure'']),
               GetResponse, Close]\<rparr>)"
  by (simp add: body_defs example_defs get_connection_defs)

lemma quiet_platform_sel:
  "response (quiet_platform resp) = resp"
  "user_agent (quiet_platform resp) = ''pyazure''"
  "encodestring (quiet_platform resp) = b64_encodestring"
  "header_line (quiet_platform resp) = (\<lambda>name v. Str (name @ '': '' @ v))"
  "putrequest_lines (quiet_platform resp) c m p =
     (if kind c = WinHTTPConnection then []
      else [Str (m @ '' '' @ p @ '' HTTP/1.1''), Str (''Host: '' @ conn_host c),
            Str ''Accept-Encoding: identity''])"
  by (simp_all add: quiet_platform_def)

lemma python3_platform_sel:
  "response (python3_platform resp) = resp"
  "user_agent (python3_platform resp) = ''pyazure''"
  "header_line (python3_platform resp) = (\<lambda>name v. Bytes (name @ '': '' @ v))"
  "putrequest_lines (python3_platform resp) c m p =
     (if kind c = WinHTTPConnection then []
      else [Bytes (m @ '' '' @ p @ '' HTTP/1.1''), Bytes (''Host: '' @ conn_host c),
            Bytes ''Accept-Encoding: identity''])"
  by (simp_all add: python3_platform_def quiet_platform_def)

lemma connection_sel:
  "kind direct_connection = HTTPSConnection" "kind tunnelled_connection = HTTPSConnection"
  "kind windows_connection = WinHTTPConnection"
  "conn_host direct_connection = ''example.blob.core.windows.net''"
  "conn_host tunnelled_connection = ''proxy.local''"
  by (simp_all add: direct_connection_def tunnelled_connection_def windows_connection_def)

lemma initial_state_sel:
  "self (initial_state c) = c"
  "next_addr (initial_state c) = 0"
  "trace (initial_state c) = []"
  by (simp_all add: initial_state_def)

lemma server_sel:
  "resp_status server_200 = 200" "resp_reason server_200 = ''OK''"
  "resp_getheaders server_200 = [(''Content-Length'', ''13'')]"
  "resp_length server_200 = Some 13" "resp_read server_200 = content_reader ''hello world!!''"
  "resp_status server_204 = 204" "resp_reason server_204 = ''No Content''"
  "resp_getheaders server_204 = [(''Content-Length'', ''0'')]"
  "resp_length server_204 = Some 0" "resp_read server_204 = content_reader []"
  "resp_status server_404 = 404" "resp_reason server_404 = ''Not Found''"
  "resp_getheaders server_404 = [(''Content-Type'', ''text/plain'')]"
  "resp_length server_404 = Some 9" "resp_read server_404 = content_reader ''not found''"
  by (simp_all add: server_200_def server_204_def server_404_def)

lemma client_sel:
  "use_httplib posix_client" "\<not> use_httplib windows_client"
  "proxy_host posix_client = None" "protocol posix_client = ''https''"
  "protocol windows_client = ''https''"
  "use_httplib (set_proxy h p u pw c) = use_httplib c"
  "protocol (set_proxy h p u pw c) = protocol c"
  "proxy_host (set_proxy h p u pw c) = h"
  "proxy_port (set_proxy h p u pw c) = p"
  "proxy_user (set_proxy h p u pw c) = u"
  "proxy_password (set_proxy h p u pw c) = pw"
  by (simp_all add: posix_client_def windows_client_def set_proxy_def)

lemma blob_request_sel:
  "req_method blob_request = ''GET''" "path blob_request = ''/blob''"
  "protocol_override blob_request = None"
  "host blob_request = ''example.blob.core.windows.net''"
  "headers blob_request = [(''x-ms-version'', Some ''2021-08-06'')]"
  "body blob_request = None"
  by (simp_all add: blob_request_def)

lemmas lower_defs = lower_def lower_char_def isupper_def

section \<open>The claims\<close>

subsection \<open>Outcome of a dispatch\<close>

text \<open>
  C1, as amended. Take a dispatch that obtains a response: \<open>get_connection\<close> returns a
  connection, no call on the connection or on its response raises, and the loop of
  \<open>send_request_headers\<close> over the buffered lines does not raise. Then \<open>perform_request\<close>
  raises \<open>HTTPError\<close> exactly when the status of the response is at least 300, and
  returns a response value otherwise. Either one carries the status and the reason of the
  raw response, the body read under the length policy (what \<open>read()\<close> returns when the
  length is unknown, what \<open>read(length)\<close> returns when it is positive, no body otherwise),
  and a reference to the header list, which holds the raw headers with their names in
  lower case. When the loop raises, which it does when it meets a bytes line in the
  buffer, the dispatch obtains no response and \<open>perform_request\<close> raises that exception.
\<close>

theorem perform_request_outcome:
  assumes "never_raises pf" and "fst (get_connection pf r s) = Inr c"
  shows "case kept_lines (self s) (putrequest_lines pf c (req_method r) (path r)) of
           Inl e \<Rightarrow> fst (perform_request pf r s) = Inl e
         | Inr ls \<Rightarrow>
             fst (perform_request pf r s) =
               (if resp_status (response pf) \<ge> 300
                then Inl (HTTPError (resp_status (response pf)) (resp_reason (response pf))
                       (next_addr s) (body_read (response pf)))
                else Inr \<lparr>hr_status = resp_status (response pf),
                          hr_message = resp_reason (response pf),
                          hr_headers = next_addr s, hr_body = body_read (response pf)\<rparr>) \<and>
             heap (snd (perform_request pf r s)) (next_addr s) =
               Some (map (\<lambda>h. (lower (fst h), snd h)) (resp_getheaders (response pf)))"
  by (simp add: perform_request_ok' [OF assms] outcome_def after_response_def split: sum.splits)

text \<open>
  The theorem at a 404 answer and at the 200 answer of the specification's example, and
  at a tunnelled dispatch over a buffer of bytes, where the loop raises.
\<close>

theorem perform_request_outcome_witness:
  "never_raises (quiet_platform server_404) \<and>
   fst (get_connection (quiet_platform server_404) blob_request (initial_state posix_client)) =
     Inr direct_connection \<and>
   fst (perform_request (quiet_platform server_404) blob_request (initial_state posix_client)) =
     Inl (HTTPError 404 ''Not Found'' 0 (Some ''not found'')) \<and>
   heap (snd (perform_request (quiet_platform server_404) blob_request
     (initial_state posix_client))) 0 = Some [(''content-type'', ''text/plain'')] \<and>
   fst (perform_request (quiet_platform server_200) blob_request (initial_state posix_client)) =
     Inr \<lparr>hr_status = 200, hr_message = ''OK'', hr_headers = 0,
          hr_body = Some ''hello world!!''\<rparr> \<and>
   fst (perform_request (python3_platform server_200) blob_request
     (initial_state (set_proxy (Some ''proxy.local'') (Some 8080) None None posix_client))) =
     Inl TypeError"
  using perform_request_outcome [OF quiet_platform_never_raises get_connection_direct, of server_404]
    perform_request_outcome [OF quiet_platform_never_raises get_connection_direct, of server_200]
    perform_request_outcome
      [OF python3_platform_never_raises get_connection_tunnelled_python3, of server_200]
    quiet_platform_never_raises [of server_404] get_connection_direct [of server_404]
  by (simp add: quiet_platform_sel python3_platform_sel initial_state_sel server_sel client_sel
      blob_request_sel body_read_def lower_defs content_reader_def kept_lines_def truthy_def
      connection_sel remove_host_lines_bytes_first)

text \<open>
  C1 as stated fails: the headers carried by the error are not those of the raw response.
  The server answers 404 with the header \<open>Content-Type\<close>; the error carries \<open>content-type\<close>.
\<close>

theorem error_headers_not_raw:
  "fst (perform_request (quiet_platform server_404) blob_request (initial_state posix_client)) =
     Inl (HTTPError 404 ''Not Found'' 0 (Some ''not found'')) \<and>
   resp_getheaders (response (quiet_platform server_404)) = [(''Content-Type'', ''text/plain'')] \<and>
   heap (snd (perform_request (quiet_platform server_404) blob_request
     (initial_state posix_client))) 0 = Some [(''content-type'', ''text/plain'')] \<and>
   heap (snd (perform_request (quiet_platform server_404) blob_request
     (initial_state posix_client))) 0 \<noteq>
     Some (resp_getheaders (response (quiet_platform server_404)))"
  unfolding perform_request_404
  by (simp add: quiet_platform_sel server_sel)

text \<open>
  C2: whenever \<open>perform_request\<close> returns a response value, whatever the platform did, the
  header list of that value is the raw header list with every name put in lower case, so
  that no header name contains an upper case letter.
\<close>

theorem response_header_names_lowercase:
  assumes "fst (perform_request pf r s) = Inr resp"
  shows "heap (snd (perform_request pf r s)) (hr_headers resp) =
           Some (map (\<lambda>h. (lower (fst h), snd h)) (resp_getheaders (response pf))) \<and>
         list_all (\<lambda>h. lowercase_name (fst h))
           (map (\<lambda>h. (lower (fst h), snd h)) (resp_getheaders (response pf)))"
proof -
  from assms obtain s0 where s0: "extends s s0"
    and s': "snd (perform_request pf r s) =
           (after_response pf s0)\<lparr>trace := trace (after_response pf s0) @ [Close]\<rparr>"
    and res: "Inr resp = outcome (response pf) (next_addr s)"
    by (rule perform_request_responded' [where res = "Inr resp" and resp = resp]) auto
  have "next_addr s0 = next_addr s"
    using s0 by (rule extends_frame)
  moreover have "hr_headers resp = next_addr s"
    using res by (auto simp: outcome_def split: if_splits)
  ultimately show ?thesis
    using s' by (simp add: after_response_def lowered_names)
qed

theorem response_header_names_lowercase_witness:
  "fst (perform_request (quiet_platform server_200) blob_request (initial_state posix_client)) =
     Inr \<lparr>hr_status = 200, hr_message = ''OK'', hr_headers = 0,
          hr_body = Some ''hello world!!''\<rparr> \<and>
   heap (snd (perform_request (quiet_platform server_200) blob_request
     (initial_state posix_client))) 0 = Some [(''content-length'', ''13'')] \<and>
   list_all (\<lambda>h. lowercase_name (fst h)) [(''content-length'', ''13'')]"
proof -
  have h: "fst (perform_request (quiet_platform server_200) blob_request
      (initial_state posix_client)) =
     Inr \<lparr>hr_status = 200, hr_message = ''OK'', hr_headers = 0,
          hr_body = Some ''hello world!!''\<rparr>"
    by (simp add: perform_request_200)
  show ?thesis
    using h response_header_names_lowercase [OF h]
    by (simp add: quiet_platform_def server_200_def lower_def lower_char_def isupper_def)
qed

text \<open>
  C9: whenever \<open>perform_request\<close> raises \<open>HTTPError\<close>, the header list of the error is the
  list object that the client's \<open>respheader\<close> field refers to, and it holds the raw headers
  with every name in lower case.
\<close>

theorem error_header_names_lowercase:
  assumes "fst (perform_request pf r s) = Inl (HTTPError st msg a b)"
  shows "heap (snd (perform_request pf r s)) a =
           Some (map (\<lambda>h. (lower (fst h), snd h)) (resp_getheaders (response pf))) \<and>
         list_all (\<lambda>h. lowercase_name (fst h))
           (map (\<lambda>h. (lower (fst h), snd h)) (resp_getheaders (response pf))) \<and>
         respheader (self (snd (perform_request pf r s))) = Some a"
proof -
  from assms obtain s0 where s0: "extends s s0"
    and s': "snd (perform_request pf r s) =
           (after_response pf s0)\<lparr>trace := trace (after_response pf s0) @ [Close]\<rparr>"
    and res: "Inl (HTTPError st msg a b) = outcome (response pf) (next_addr s)"
    by (rule perform_request_responded'
          [where res = "Inl (HTTPError st msg a b)" and st = st and msg = msg and a = a and b = b])
       auto
  have "next_addr s0 = next_addr s"
    using s0 by (rule extends_frame)
  moreover have "a = next_addr s"
    using res by (auto simp: outcome_def split: if_splits)
  ultimately show ?thesis
    using s' by (simp add: after_response_def lowered_names)
qed

theorem error_header_names_lowercase_witness:
  "fst (perform_request (quiet_platform server_404) blob_request (initial_state posix_client)) =
     Inl (HTTPError 404 ''Not Found'' 0 (Some ''not found'')) \<and>
   heap (snd (perform_request (quiet_platform server_404) blob_request
     (initial_state posix_client))) 0 = Some [(''content-type'', ''text/plain'')] \<and>
   list_all (\<lambda>h. lowercase_name (fst h)) [(''content-type'', ''text/plain'')] \<and>
   respheader (self (snd (perform_request (quiet_platform server_404) blob_request
     (initial_state posix_client)))) = Some 0"
proof -
  have h: "fst (perform_request (quiet_platform server_404) blob_request
      (initial_state posix_client)) =
     Inl (HTTPError 404 ''Not Found'' 0 (Some ''not found''))"
    by (simp add: perform_request_404)
  show ?thesis
    using h error_header_names_lowercase [OF h]
    by (simp add: quiet_platform_def server_404_def lower_def lower_char_def isupper_def)
qed

text \<open>
  C8: whatever the outcome of a dispatch, the only read it makes on the response is
  \<open>read()\<close> when the length of the response is unknown and \<open>read(length)\<close> when the length
  is positive; it makes none when the length is 0 or less. When \<open>perform_request\<close> returns
  a response value, or raises \<open>HTTPError\<close>, that read has been made and the body carried
  is what it returned, and no body at all in the third case, in particular when the
  length is exactly 0.
\<close>

theorem body_read_by_length:
  "(filter is_read (new_calls s (snd (perform_request pf r s))) = [] \<or>
    filter is_read (new_calls s (snd (perform_request pf r s))) =
      (case resp_length (response pf) of
         None \<Rightarrow> [Read None]
       | Some n \<Rightarrow> if n > 0 then [Read (Some n)] else [])) \<and>
   (fst (perform_request pf r s) = Inr resp \<or>
    fst (perform_request pf r s) = Inl (HTTPError st msg a b) \<longrightarrow>
      filter is_read (new_calls s (snd (perform_request pf r s))) =
        (case resp_length (response pf) of
           None \<Rightarrow> [Read None]
         | Some n \<Rightarrow> if n > 0 then [Read (Some n)] else [])) \<and>
   (fst (perform_request pf r s) = Inr resp \<longrightarrow>
      hr_body resp =
        (case resp_length (response pf) of
           None \<Rightarrow> Some (resp_read (response pf) None)
         | Some n \<Rightarrow> if n > 0 then Some (resp_read (response pf) (Some n)) else None) \<and>
      (resp_length (response pf) = Some 0 \<longrightarrow> hr_body resp = None)) \<and>
   (fst (perform_request pf r s) = Inl (HTTPError st msg a b) \<longrightarrow>
      b = (case resp_length (response pf) of
             None \<Rightarrow> Some (resp_read (response pf) None)
           | Some n \<Rightarrow> if n > 0 then Some (resp_read (response pf) (Some n)) else None))"
proof -
  have reads: "filter is_read (new_calls s (snd (perform_request pf r s))) =
      read_calls (response pf) \<and> res = outcome (response pf) (next_addr s)"
    if res: "fst (perform_request pf r s) = res"
      and kind: "res = Inr resp \<or> res = Inl (HTTPError st msg a b)" for res
  proof -
    from res kind obtain s0 where s0: "extends s s0"
      and s': "snd (perform_request pf r s) =
             (after_response pf s0)\<lparr>trace := trace (after_response pf s0) @ [Close]\<rparr>"
      and out: "res = outcome (response pf) (next_addr s)"
      by (rule perform_request_responded')
    from s0 obtain ext where ext: "trace s0 = trace s @ ext" "list_all quiet ext"
      by (rule extends_trace)
    have "new_calls s (snd (perform_request pf r s)) =
            ext @ GetResponse # read_calls (response pf) @ [Close]"
      using s' ext by (simp add: new_calls_def after_response_def)
    then have "filter is_read (new_calls s (snd (perform_request pf r s))) =
            read_calls (response pf)"
      using filter_quiet_reads [OF ext(2)]
      by (auto simp: read_calls_def split: option.splits)
    then show ?thesis
      using out by simp
  qed
  have one: "filter is_read (new_calls s (snd (perform_request pf r s))) = [] \<or>
    filter is_read (new_calls s (snd (perform_request pf r s))) = read_calls (response pf)"
    by (rule perform_request_reads)
  have two: "filter is_read (new_calls s (snd (perform_request pf r s))) =
      read_calls (response pf)"
    if "fst (perform_request pf r s) = Inr resp \<or>
        fst (perform_request pf r s) = Inl (HTTPError st msg a b)"
    using that reads by blast
  have three: "hr_body resp = body_read (response pf)"
    if "fst (perform_request pf r s) = Inr resp"
    using reads [OF that] by (auto simp: outcome_def split: if_splits)
  have four: "b = body_read (response pf)"
    if "fst (perform_request pf r s) = Inl (HTTPError st msg a b)"
    using reads [OF that] by (auto simp: outcome_def split: if_splits)
  show ?thesis
    using one two three four
    by (auto simp: body_read_def read_calls_def split: option.splits)
qed

text \<open>The theorem at a 204 answer of length 0: no body and no read.\<close>

theorem body_read_by_length_witness:
  "fst (perform_request (quiet_platform server_204) blob_request (initial_state posix_client)) =
     Inr \<lparr>hr_status = 204, hr_message = ''No Content'', hr_headers = 0, hr_body = None\<rparr> \<and>
   resp_length (response (quiet_platform server_204)) = Some 0 \<and>
   hr_body \<lparr>hr_status = 204, hr_message = ''No Content'', hr_headers = 0, hr_body = None\<rparr> = None \<and>
   filter is_read (new_calls (initial_state posix_client)
     (snd (perform_request (quiet_platform server_204) blob_request
        (initial_state posix_client)))) = []"
proof -
  have h: "fst (perform_request (quiet_platform server_204) blob_request
      (initial_state posix_client)) =
     Inr \<lparr>hr_status = 204, hr_message = ''No Content'', hr_headers = 0, hr_body = None\<rparr>"
    by (simp add: perform_request_204)
  show ?thesis
    using h body_read_by_length
      [of "initial_state posix_client" "quiet_platform server_204" blob_request
          "\<lparr>hr_status = 204, hr_message = ''No Content'', hr_headers = 0, hr_body = None\<rparr>"]
    by (simp add: quiet_platform_sel server_sel)
qed

subsection \<open>Release of the connection\<close>

text \<open>
  C3, as amended. Whenever \<open>get_connection\<close> returns a connection, \<open>close\<close> is called
  exactly once during the dispatch, as its last call, whether the try block returns,
  raises \<open>HTTPError\<close> or lets an exception of the platform through. When
  \<open>get_connection\<close> itself raises, \<open>perform_request\<close> raises the same exception and
  \<open>close\<close> is not called.
\<close>

theorem perform_request_closes:
  "count_list (new_calls s (snd (perform_request pf r s))) Close =
     (case fst (get_connection pf r s) of Inl e \<Rightarrow> 0 | Inr c \<Rightarrow> 1) \<and>
   (case fst (get_connection pf r s) of
      Inl e \<Rightarrow> fst (perform_request pf r s) = Inl e
    | Inr c \<Rightarrow> last (trace (snd (perform_request pf r s))) = Close)"
proof -
  obtain g s1 where gc: "get_connection pf r s = (g, s1)"
    by (cases "get_connection pf r s")
  from get_connection_extends [OF gc] obtain e1 where
    e1: "trace s1 = trace s @ e1" "list_all quiet e1"
    by (rule extends_trace)
  have nc1: "Close \<notin> set e1"
    using e1(2) by (auto simp: list_all_iff quiet_def)
  show ?thesis
  proof (cases g)
    case (Inl e)
    then have "perform_request pf r s = (Inl e, s1)"
      using gc by (simp add: perform_request_failed_connection)
    then show ?thesis
      using gc Inl e1 nc1 by (simp add: new_calls_def count_list_absent)
  next
    case (Inr c)
    obtain res s2 where tb: "try_body pf c r s1 = (res, s2)"
      by (cases "try_body pf c r s1")
    obtain res' s3 where fc: "finally_close pf (res, s2) = (res', s3)"
      by (cases "finally_close pf (res, s2)")
    from try_body_no_close [OF tb] obtain e2 where
      e2: "trace s2 = trace s1 @ e2" "Close \<notin> set e2" by blast
    have s3: "s3 = s2\<lparr>trace := trace s2 @ [Close]\<rparr>"
      using fc by (rule finally_close_result)
    have pr: "perform_request pf r s = (res', s3)"
      using gc Inr tb fc by (simp add: perform_request_connected)
    have "trace s3 = trace s @ (e1 @ e2 @ [Close])"
      using s3 e1 e2 by simp
    then show ?thesis
      using pr gc Inr nc1 e2(2)
      by (simp add: new_calls_def count_list_app count_list_absent)
  qed
qed

text \<open>The theorem on a platform whose \<open>getresponse\<close> raises.\<close>

theorem perform_request_closes_witness:
  "fst (perform_request (failing_platform server_200) blob_request (initial_state posix_client)) =
     Inl (Propagated ''timed out'') \<and>
   count_list (new_calls (initial_state posix_client)
     (snd (perform_request (failing_platform server_200) blob_request
        (initial_state posix_client)))) Close = 1 \<and>
   last (trace (snd (perform_request (failing_platform server_200) blob_request
        (initial_state posix_client)))) = Close"
  using perform_request_closes
      [of "initial_state posix_client" "failing_platform server_200" blob_request]
    get_connection_direct_failing [of server_200]
  by (simp add: perform_request_failing)

text \<open>
  C3 as stated fails: with a proxy host but no proxy port on the alternate connection
  path, the connection object is constructed, \<open>int(proxy_port)\<close> raises inside
  \<open>get_connection\<close>, before the try block, and \<open>close\<close> is never called.
\<close>

theorem connection_left_unclosed:
  "fst (perform_request (quiet_platform server_200) blob_request
     (initial_state (set_proxy (Some ''proxy.local'') None None None windows_client))) =
     Inl TypeError \<and>
   trace (snd (perform_request (quiet_platform server_200) blob_request
     (initial_state (set_proxy (Some ''proxy.local'') None None None windows_client)))) =
     [NewConnection WinHTTPConnection ''example.blob.core.windows.net'' None] \<and>
   count_list (trace (snd (perform_request (quiet_platform server_200) blob_request
     (initial_state (set_proxy (Some ''proxy.local'') None None None windows_client))))) Close = 0"
  by (simp add: perform_request_unconnected)

subsection \<open>Request headers and body\<close>

text \<open>
  C4, as amended. Take a dispatch on the standard connection path with a proxy host
  configured, on a platform where no call raises, in which the removal loop over the
  lines buffered by \<open>putrequest\<close> does not raise. The first header put after the request
  line is \<open>Host\<close> with the value \<open>host:port\<close> of the tunnel target, the request's host and
  the port 80 or 443 of the effective protocol; the header section handed to
  \<open>endheaders\<close> is what the loop left of the buffered lines, followed by that Host line,
  the request headers and the user agent. When the buffered lines are native strings
  with at most one Host line among them, the loop removes that line and nothing else.
  When the loop raises, which it does when it meets a bytes line, no header is put at
  all and \<open>perform_request\<close> raises that exception after \<open>close\<close>.
\<close>

theorem tunnel_host_header:
  assumes "never_raises pf" and "use_httplib (self s)" and "truthy (proxy_host (self s))"
    and "fst (get_connection pf r s) = Inr c"
  shows "(case remove_host_lines 0 (putrequest_lines pf c (req_method r) (path r)) of
            Inl e \<Rightarrow>
              fst (perform_request pf r s) = Inl e \<and>
              new_calls s (snd (perform_request pf r s)) =
                [NewConnection (kind c) (conn_host c) (conn_port c),
                 SetTunnel (host r) (if effective_protocol (self s) r = ''http'' then 80 else 443)
                   (tunnel_headers c),
                 PutRequest (req_method r) (path r), Close]
          | Inr ls \<Rightarrow>
              new_calls s (snd (perform_request pf r s)) =
                [NewConnection (kind c) (conn_host c) (conn_port c),
                 SetTunnel (host r) (if effective_protocol (self s) r = ''http'' then 80 else 443)
                   (tunnel_headers c),
                 PutRequest (req_method r) (path r),
                 PutHeader ''Host''
                   (host r @ '':'' @
                    (if effective_protocol (self s) r = ''http'' then ''80'' else ''443''))] @
                map (\<lambda>h. PutHeader (fst h) (snd h)) (sent_headers (headers r)) @
                [PutHeader ''User-Agent'' (user_agent pf),
                 EndHeaders
                   (ls @
                    [header_line pf ''Host''
                       (host r @ '':'' @
                        (if effective_protocol (self s) r = ''http'' then ''80'' else ''443''))] @
                    map (\<lambda>h. header_line pf (fst h) (snd h)) (sent_headers (headers r)) @
                    [header_line pf ''User-Agent'' (user_agent pf)])] @
                (if truthy (body r) then [Send (body r)] else []) @
                GetResponse # read_calls (response pf) @ [Close]) \<and>
         (if list_all native (putrequest_lines pf c (req_method r) (path r)) \<and>
             length (filter is_host_line (putrequest_lines pf c (req_method r) (path r))) \<le> 1
          then remove_host_lines 0 (putrequest_lines pf c (req_method r) (path r)) =
                 Inr (filter (\<lambda>l. \<not> is_host_line l)
                        (putrequest_lines pf c (req_method r) (path r)))
          else True)"
proof -
  note gc = get_connection_Inr' [OF assms(4)]
  have k: "kind c \<noteq> WinHTTPConnection"
    using get_connection_Inr(3) [OF gc] assms(2) by auto
  have th: "tunnel_host c = Some (host r)"
    using get_connection_Inr(7) [OF gc] assms(2,3) by simp
  have tp: "tunnel_port c = Some (if effective_protocol (self s) r = ''http'' then 80 else 443)"
    using get_connection_Inr(8) [OF gc] assms(2,3) by (simp add: HTTP_PORT_def HTTPS_PORT_def)
  have kl: "kept_lines (self s) buf = remove_host_lines 0 buf" for buf
    using assms(2,3) by (simp add: kept_lines_def)
  have cc: "connection_calls c =
      [NewConnection (kind c) (conn_host c) (conn_port c),
       SetTunnel (host r) (if effective_protocol (self s) r = ''http'' then 80 else 443)
         (tunnel_headers c)]"
    using th tp by (simp add: connection_calls_def)
  have cr: "credential_calls (self s) = []"
    using assms(2) by (simp add: credential_calls_def)
  have one: "case remove_host_lines 0 (putrequest_lines pf c (req_method r) (path r)) of
            Inl e \<Rightarrow>
              fst (perform_request pf r s) = Inl e \<and>
              new_calls s (snd (perform_request pf r s)) =
                [NewConnection (kind c) (conn_host c) (conn_port c),
                 SetTunnel (host r) (if effective_protocol (self s) r = ''http'' then 80 else 443)
                   (tunnel_headers c),
                 PutRequest (req_method r) (path r), Close]
          | Inr ls \<Rightarrow>
              new_calls s (snd (perform_request pf r s)) =
                [NewConnection (kind c) (conn_host c) (conn_port c),
                 SetTunnel (host r) (if effective_protocol (self s) r = ''http'' then 80 else 443)
                   (tunnel_headers c),
                 PutRequest (req_method r) (path r),
                 PutHeader ''Host''
                   (host r @ '':'' @
                    (if effective_protocol (self s) r = ''http'' then ''80'' else ''443''))] @
                map (\<lambda>h. PutHeader (fst h) (snd h)) (sent_headers (headers r)) @
                [PutHeader ''User-Agent'' (user_agent pf),
                 EndHeaders
                   (ls @
                    [header_line pf ''Host''
                       (host r @ '':'' @
                        (if effective_protocol (self s) r = ''http'' then ''80'' else ''443''))] @
                    map (\<lambda>h. header_line pf (fst h) (snd h)) (sent_headers (headers r)) @
                    [header_line pf ''User-Agent'' (user_agent pf)])] @
                (if truthy (body r) then [Send (body r)] else []) @
                GetResponse # read_calls (response pf) @ [Close]"
    using k th tp assms(2,3)
    by (simp add: perform_request_ok' [OF assms(1,4)] kl cc cr new_calls_def after_response_def
        request_calls_def header_section_def format_str_def format_int_def str_int_ports
        split: sum.splits)
  have two: "remove_host_lines 0 ls = Inr (filter (\<lambda>l. \<not> is_host_line l) ls)"
    if "list_all native ls" and "length (filter is_host_line ls) \<le> 1" for ls
    using that by (intro remove_host_lines_single) (simp_all add: list_all_iff)
  show ?thesis
    using one two by simp
qed

text \<open>
  The theorem at a tunnelled dispatch over a buffer of native strings, where the Host
  line naming the proxy is replaced, and over a buffer of bytes, where the loop raises.
\<close>

theorem tunnel_host_header_witness:
  "never_raises (quiet_platform server_200) \<and>
   use_httplib (self (initial_state
     (set_proxy (Some ''proxy.local'') (Some 8080) None None posix_client))) \<and>
   truthy (proxy_host (self (initial_state
     (set_proxy (Some ''proxy.local'') (Some 8080) None None posix_client)))) \<and>
   fst (get_connection (quiet_platform server_200) blob_request
     (initial_state (set_proxy (Some ''proxy.local'') (Some 8080) None None posix_client))) =
     Inr tunnelled_connection \<and>
   new_calls (initial_state (set_proxy (Some ''proxy.local'') (Some 8080) None None posix_client))
     (snd (perform_request (quiet_platform server_200) blob_request
       (initial_state (set_proxy (Some ''proxy.local'') (Some 8080) None None posix_client)))) =
     [NewConnection HTTPSConnection ''proxy.local'' (Some 8080),
      SetTunnel ''example.blob.core.windows.net'' 443 None,
      PutRequest ''GET'' ''/blob'',
      PutHeader ''Host'' ''example.blob.core.windows.net:443'',
      PutHeader ''x-ms-version'' ''2021-08-06'',
      PutHeader ''User-Agent'' ''pyazure'',
      EndHeaders (map Str [''GET /blob HTTP/1.1'', ''Accept-Encoding: identity'',
                  ''Host: example.blob.core.windows.net:443'', ''x-ms-version: 2021-08-06'',
                  ''User-Agent: pyazure'']),
      GetResponse, Read (Some 13), Close] \<and>
   new_calls (initial_state (set_proxy (Some ''proxy.local'') (Some 8080) None None posix_client))
     (snd (perform_request (python3_platform server_200) blob_request
       (initial_state (set_proxy (Some ''proxy.local'') (Some 8080) None None posix_client)))) =
     [NewConnection HTTPSConnection ''proxy.local'' (Some 8080),
      SetTunnel ''example.blob.core.windows.net'' 443 None,
      PutRequest ''GET'' ''/blob'', Close]"
proof -
  let ?s = "initial_state (set_proxy (Some ''proxy.local'') (Some 8080) None None posix_client)"
  have u: "use_httplib (self ?s)"
    by (simp add: initial_state_def set_proxy_def posix_client_def)
  have t: "truthy (proxy_host (self ?s))"
    by (simp add: initial_state_def set_proxy_def truthy_def)
  have l2: "remove_host_lines 0
      (putrequest_lines (quiet_platform server_200) tunnelled_connection
         (req_method blob_request) (path blob_request)) =
      Inr (map Str [''GET /blob HTTP/1.1'', ''Accept-Encoding: identity''])"
    by (simp add: quiet_platform_def tunnelled_connection_def blob_request_def
        remove_host_lines.simps line_startswith_def startswith_def)
  have l3: "remove_host_lines 0
      (putrequest_lines (python3_platform server_200) tunnelled_connection
         (req_method blob_request) (path blob_request)) = Inl TypeError"
    by (simp add: python3_platform_def quiet_platform_def tunnelled_connection_def
        blob_request_def remove_host_lines_bytes_first)
  show ?thesis
    using tunnel_host_header [OF quiet_platform_never_raises u t get_connection_tunnelled,
        of server_200]
      tunnel_host_header [OF python3_platform_never_raises u t get_connection_tunnelled_python3,
        of server_200]
      quiet_platform_never_raises [of server_200] u t get_connection_tunnelled [of server_200]
    unfolding l2 l3
    by (simp add: quiet_platform_sel server_sel client_sel blob_request_sel initial_state_sel
        effective_protocol_def if_true_def truthy_def read_calls_def tunnelled_connection_def)
qed

text \<open>
  C4 as stated fails: on the alternate connection path with a proxy configured, the
  rewrite of the Host header is skipped and no Host header naming the target is put.
\<close>

theorem no_host_header_on_winhttp:
  "truthy (proxy_host (set_proxy (Some ''proxy.local'') (Some 8080) None None windows_client)) \<and>
   trace (snd (perform_request (quiet_platform server_200) blob_request
     (initial_state (set_proxy (Some ''proxy.local'') (Some 8080) None None windows_client)))) =
     [NewConnection WinHTTPConnection ''example.blob.core.windows.net'' None,
      SetTunnel ''proxy.local'' 8080 None,
      PutRequest ''GET'' ''/blob'',
      PutHeader ''x-ms-version'' ''2021-08-06'',
      PutHeader ''User-Agent'' ''pyazure'',
      EndHeaders (map Str [''x-ms-version: 2021-08-06'', ''User-Agent: pyazure'']),
      Send None, GetResponse, Read (Some 13), Close] \<and>
   PutHeader ''Host'' ''example.blob.core.windows.net:443'' \<notin>
     set (trace (snd (perform_request (quiet_platform server_200) blob_request
       (initial_state (set_proxy (Some ''proxy.local'') (Some 8080) None None windows_client)))))"
  unfolding perform_request_windows
  by (simp add: client_sel truthy_def)

text \<open>
  C5: when no body is supplied, \<open>send_request_body\<close> makes no call at all on an
  \<open>HTTPConnection\<close> or an \<open>HTTPSConnection\<close>, and exactly one call, \<open>send(None)\<close>, on any
  other connection. Over a whole dispatch without a body, on a platform where no call
  raises, the sends are none on the standard path and that single empty send on the
  alternate path.
\<close>

theorem send_request_body_without_body:
  "new_calls s (snd (send_request_body pf c None s)) =
     (if kind c = HTTPConnection \<or> kind c = HTTPSConnection then [] else [Send None]) \<and>
   (if never_raises pf \<and> fst (get_connection pf r s) = Inr c' \<and> body r = None
    then filter is_send (new_calls s (snd (perform_request pf r s))) =
           (if use_httplib (self s) then [] else [Send None])
    else True)"
proof -
  have one: "new_calls s (snd (send_request_body pf c None s)) =
     (if kind c = HTTPConnection \<or> kind c = HTTPSConnection then [] else [Send None])"
    by (auto simp: send_request_body_def new_calls_def truthy_def invoke_def split: option.splits)
  have two: "filter is_send (new_calls s (snd (perform_request pf r s))) =
           (if use_httplib (self s) then [] else [Send None])"
    if nr: "never_raises pf" and gc: "fst (get_connection pf r s) = Inr c'" and b: "body r = None"
  proof -
    have k: "kind c' = WinHTTPConnection \<longleftrightarrow> \<not> use_httplib (self s)"
      using get_connection_Inr(3) [OF get_connection_Inr' [OF gc]] by auto
    show ?thesis
    proof (cases "kept_lines (self s) (putrequest_lines pf c' (req_method r) (path r))")
      case (Inl e)
      then have "use_httplib (self s)"
        by (rule kept_lines_Inl)
      then show ?thesis
        using Inl
        by (simp add: perform_request_ok' [OF nr gc] new_calls_def credential_calls_def
            filter_send_connection)
    next
      case (Inr ls)
      then show ?thesis
        using k b
        by (simp add: perform_request_ok' [OF nr gc] new_calls_def after_response_def
            request_calls_def credential_calls_def filter_send_headers filter_send_reads
            filter_send_connection truthy_def)
    qed
  qed
  show ?thesis
    using one two by simp
qed

theorem send_request_body_without_body_witness:
  "new_calls (initial_state windows_client)
     (snd (send_request_body (quiet_platform server_200) windows_connection None
        (initial_state windows_client))) = [Send None] \<and>
   new_calls (initial_state posix_client)
     (snd (send_request_body (quiet_platform server_200) direct_connection None
        (initial_state posix_client))) = [] \<and>
   never_raises (quiet_platform server_200) \<and>
   fst (get_connection (quiet_platform server_200) blob_request (initial_state posix_client)) =
     Inr direct_connection \<and>
   body blob_request = None \<and>
   filter is_send (new_calls (initial_state posix_client)
     (snd (perform_request (quiet_platform server_200) blob_request
        (initial_state posix_client)))) = []"
  using send_request_body_without_body
      [of "initial_state windows_client" "quiet_platform server_200" windows_connection
          blob_request direct_connection]
    send_request_body_without_body
      [of "initial_state posix_client" "quiet_platform server_200" direct_connection
          blob_request direct_connection]
    quiet_platform_never_raises [of server_200] get_connection_direct [of server_200]
  by (simp add: windows_connection_def direct_connection_def blob_request_def
      initial_state_def posix_client_def)

subsection \<open>Connections and tunnels\<close>




text \<open>
  C10: when a proxy host is configured and \<open>get_connection\<close> returns a connection, the
  headers given to \<open>set_tunnel\<close> are the single header \<open>Proxy-Authorization: Basic\<close>
  followed by the encoding of \<open>user:password\<close> if the proxy user and the proxy password
  are both set and not empty, and no headers at all otherwise; \<open>set_tunnel\<close> is the last
  call \<open>get_connection\<close> makes.
\<close>

theorem tunnel_authorization:
  assumes "fst (get_connection pf r s) = Inr c" and "truthy (proxy_host (self s))"
  shows "tunnel_headers c =
           (if truthy (proxy_user (self s)) \<and> truthy (proxy_password (self s))
            then Some [(''Proxy-Authorization'',
                        ''Basic '' @ encodestring pf
                           (format_str (proxy_user (self s)) @ '':'' @
                            format_str (proxy_password (self s))))]
            else None) \<and>
         (\<exists>h p. trace (snd (get_connection pf r s)) =
                  trace s @ [NewConnection (kind c) (conn_host c) (conn_port c),
                             SetTunnel h p (tunnel_headers c)])"
proof -
  note gc = get_connection_Inr' [OF assms(1)]
  have hd: "tunnel_headers c = tunnel_auth_headers pf (self s)"
    using get_connection_Inr(4) [OF gc] assms(2) by simp
  have th: "tunnel_host c \<noteq> None"
    using get_connection_Inr(7) [OF gc] assms(2) by (auto simp: truthy_def split: option.splits)
  have tp: "tunnel_port c \<noteq> None"
    using get_connection_Inr(9) [OF gc] assms(2) by simp
  have "trace (snd (get_connection pf r s)) = trace s @ connection_calls c"
    using get_connection_Inr(1) [OF gc] by simp
  then have "\<exists>h p. trace (snd (get_connection pf r s)) =
                  trace s @ [NewConnection (kind c) (conn_host c) (conn_port c),
                             SetTunnel h p (tunnel_headers c)]"
    using th tp by (auto simp: connection_calls_def)
  then show ?thesis
    using hd by (simp add: tunnel_auth_headers_def)
qed

text \<open>The theorem with user and password set, then with the user alone.\<close>

theorem tunnel_authorization_witness:
  "fst (get_connection (quiet_platform server_200) blob_request
     (initial_state (set_proxy (Some ''proxy.local'') (Some 8080) (Some ''user'') (Some ''secret'')
        posix_client))) =
     Inr (tunnelled_connection\<lparr>tunnel_headers :=
            Some [(''Proxy-Authorization'', ''Basic dXNlcjpzZWNyZXQ='' @ [CHR 0x0A])]\<rparr>) \<and>
   truthy (proxy_host (self (initial_state
     (set_proxy (Some ''proxy.local'') (Some 8080) (Some ''user'') (Some ''secret'')
        posix_client)))) \<and>
   tunnel_headers (tunnelled_connection\<lparr>tunnel_headers :=
            Some [(''Proxy-Authorization'', ''Basic dXNlcjpzZWNyZXQ='' @ [CHR 0x0A])]\<rparr>) =
     Some [(''Proxy-Authorization'',
            ''Basic '' @ encodestring (quiet_platform server_200) ''user:secret'')] \<and>
   fst (get_connection (quiet_platform server_200) blob_request
     (initial_state (set_proxy (Some ''proxy.local'') (Some 8080) (Some ''user'') None
        posix_client))) = Inr tunnelled_connection \<and>
   tunnel_headers tunnelled_connection = None"
proof -
  have t: "truthy (proxy_host (self (initial_state
     (set_proxy (Some ''proxy.local'') (Some 8080) u p posix_client))))" for u p
    by (simp add: initial_state_def set_proxy_def truthy_def)
  show ?thesis
    using tunnel_authorization [OF get_connection_authorized t, of server_200]
      tunnel_authorization [OF get_connection_user_only t, of server_200]
      get_connection_authorized [of server_200] get_connection_user_only [of server_200] t
    by (simp add: initial_state_def set_proxy_def truthy_def format_str_def)
qed

subsection \<open>Proxy settings\<close>

text \<open>
  C7: \<open>set_proxy\<close> stores its four arguments as they are in the four proxy fields, for
  any arguments whatever, and leaves every other field of the client as it was.
\<close>

theorem set_proxy_frame:
  "proxy_host (set_proxy h p user password c) = h \<and>
   proxy_port (set_proxy h p user password c) = p \<and>
   proxy_user (set_proxy h p user password c) = user \<and>
   proxy_password (set_proxy h p user password c) = password \<and>
   service_instance (set_proxy h p user password c) = service_instance c \<and>
   status (set_proxy h p user password c) = status c \<and>
   respheader (set_proxy h p user password c) = respheader c \<and>
   message (set_proxy h p user password c) = message c \<and>
   cert_file (set_proxy h p user password c) = cert_file c \<and>
   account_name (set_proxy h p user password c) = account_name c \<and>
   account_key (set_proxy h p user password c) = account_key c \<and>
   service_namespace (set_proxy h p user password c) = service_namespace c \<and>
   issuer (set_proxy h p user password c) = issuer c \<and>
   protocol (set_proxy h p user password c) = protocol c \<and>
   use_httplib (set_proxy h p user password c) = use_httplib c"
  by (simp add: set_proxy_def)

end
